theory Spec2Isabelle
  imports Main
begin

section \<open>Data model\<close>

text \<open>
  The entities are the rows the route handlers read and write through the database
  client, with the columns the handlers name (the schema file itself is not among the
  sources). Identifiers are the strings of the routes' path parameters and of the request
  bodies. A timestamp is a reading of the clock (\<^verbatim>\<open>new Date()\<close>); the readings
  taken while one request is served are one value, \<open>now\<close>, passed to the handler.
\<close>

type_synonym ident = string
type_synonym timestamp = nat

datatype UserRole = ADMIN | APPROVER | USER

datatype WorkflowStatus = DRAFT | ACTIVE | ARCHIVED

datatype StepType = FORM | APPROVAL | NOTIFICATION

datatype ProcessStatus = PENDING | IN_PROGRESS | COMPLETED | REJECTED | CHANGES_REQUESTED

text \<open>
  The status of a step instance has its own enumeration in the source; its values
  \<^verbatim>\<open>PENDING\<close>, \<open>COMPLETED\<close>, \<open>REJECTED\<close> and \<open>SKIPPED\<close> carry the prefix
  \<open>Step_\<close> here, to keep them apart from the process statuses of the same name.
\<close>

datatype StepStatus = Step_PENDING | Step_COMPLETED | Step_REJECTED | Step_SKIPPED

datatype NotificationType = INFO | ACTION_REQUIRED | UPDATE

text \<open>
  A decoded request body, and the JSON columns of the tables. An object is the list of
  its members, each key once.
\<close>

datatype json =
    JNull
  | JBool bool
  | JNum int
  | JStr string
  | JArr "json list"
  | JObj "(string \<times> json) list"

record User =
  user_id :: ident
  user_name :: string
  user_role :: UserRole

record WorkflowTemplate =
  wt_id :: ident
  wt_name :: string
  wt_status :: WorkflowStatus

record WorkflowStep =
  ws_id :: ident
  ws_workflowTemplateId :: ident
  stepOrder :: int
  stepType :: StepType
  ws_name :: string

record FormSchema =
  fs_workflowTemplateId :: ident
  fs_fields :: json

record ProcessInstance =
  pi_id :: ident
  pi_workflowTemplateId :: ident
  pi_createdById :: ident
  pi_formData :: json
  pi_status :: ProcessStatus

record ProcessStepInstance =
  psi_id :: ident
  psi_processInstanceId :: ident
  psi_workflowStepId :: ident
  psi_status :: StepStatus
  psi_actedById :: "ident option"
  psi_actedAt :: "timestamp option"
  psi_comments :: "string option"

record AuditLog =
  al_processInstanceId :: "ident option"
  al_action :: string
  al_changedById :: ident
  al_previousValue :: "json option"
  al_newValue :: "json option"
  al_notes :: "string option"

record Notification =
  n_userId :: ident
  n_processInstanceId :: "ident option"
  n_message :: string
  n_type :: NotificationType
  n_isRead :: bool

text \<open>
  The database is one table per entity, each a list of rows in insertion order.
  \<^verbatim>\<open>findUnique({ where: { id } })\<close> is \<open>find\<close> on the identifier, and
  \<^verbatim>\<open>update({ where: { id }, data })\<close> rewrites the rows carrying the identifier.
  Keeping identifiers unique and references resolvable is the database's work: where a
  theorem needs the primary key it says so (\<open>distinct\<close>), a query whose required
  relation does not resolve throws, and an insert is taken to pass the database's own
  constraints.
\<close>

record database =
  users :: "User list"
  workflowTemplates :: "WorkflowTemplate list"
  workflowSteps :: "WorkflowStep list"
  formSchemas :: "FormSchema list"
  processInstances :: "ProcessInstance list"
  processStepInstances :: "ProcessStepInstance list"
  auditLogs :: "AuditLog list"
  notifications :: "Notification list"

text \<open>The session of the caller, \<^verbatim>\<open>session.user\<close>; no session is \<open>None\<close>.\<close>

record SessionUser =
  su_id :: ident
  su_role :: UserRole

text \<open>
  What a handler answers: \<^verbatim>\<open>NextResponse.json({ error }, { status })\<close> is
  \<open>Failure status error\<close>, and a body returned with a 2xx status is \<open>Success\<close>.
  The statuses 404, 400 and 403 are what the specification calls NotFoundError,
  ValidationError and ForbiddenError; 401 is a request without session and 500 the
  answer of the handler's \<^verbatim>\<open>catch\<close>. Of the process a handler returns, the row is
  kept; the names it is decorated with (template, creator, actors) are left out.
\<close>

datatype 'a response = Failure nat string | Success nat 'a

text \<open>A query either throws (caught by the handler's \<^verbatim>\<open>catch\<close>) or returns.\<close>

datatype 'a outcome = Thrown | Returned 'a

section \<open>Audit log and notifications (lib/audit.ts, lib/notifications.ts)\<close>

definition dquote :: string where
  "dquote = [CHR 0x22]"

definition createAuditLog :: "AuditLog \<Rightarrow> database \<Rightarrow> database" where
  "createAuditLog entry db = db\<lparr>auditLogs := auditLogs db @ [entry]\<rparr>"

definition createNotification ::
  "ident \<Rightarrow> ident option \<Rightarrow> string \<Rightarrow> NotificationType \<Rightarrow> database \<Rightarrow> database" where
  "createNotification userId processInstanceId message type db =
     db\<lparr>notifications := notifications db @
       [\<lparr>n_userId = userId, n_processInstanceId = processInstanceId,
         n_message = message, n_type = type, n_isRead = False\<rparr>]\<rparr>"

definition approvers :: "database \<Rightarrow> User list" where
  "approvers db = filter (\<lambda>u. user_role u = ADMIN \<or> user_role u = APPROVER) (users db)"

definition notifyApprovers :: "ident \<Rightarrow> string \<Rightarrow> database \<Rightarrow> database" where
  "notifyApprovers processInstanceId workflowName db =
     fold (\<lambda>approver. createNotification (user_id approver) (Some processInstanceId)
             (''New approval request: '' @ workflowName) ACTION_REQUIRED)
          (approvers db) db"

datatype CreatorAction = approved | rejected | changes_requested | completed

definition byActor :: "string option \<Rightarrow> string" where
  "byActor actorName =
     (case actorName of
        None \<Rightarrow> ''''
      | Some n \<Rightarrow> if n = '''' then '''' else '' by '' @ n)"

definition actionMessages :: "CreatorAction \<Rightarrow> string \<Rightarrow> string option \<Rightarrow> string" where
  "actionMessages action workflowName actorName =
     (case action of
        approved \<Rightarrow>
          ''Your request '' @ dquote @ workflowName @ dquote @ '' has been approved''
            @ byActor actorName
      | rejected \<Rightarrow>
          ''Your request '' @ dquote @ workflowName @ dquote @ '' has been rejected''
            @ byActor actorName
      | changes_requested \<Rightarrow>
          ''Changes requested for your '' @ dquote @ workflowName @ dquote @ '' request''
            @ byActor actorName
      | completed \<Rightarrow>
          ''Your request '' @ dquote @ workflowName @ dquote @ '' has been completed'')"

definition notifyProcessCreator ::
  "ident \<Rightarrow> ident \<Rightarrow> CreatorAction \<Rightarrow> string \<Rightarrow> string option \<Rightarrow> database \<Rightarrow> database" where
  "notifyProcessCreator processInstanceId createdById action workflowName actorName db =
     createNotification createdById (Some processInstanceId)
       (actionMessages action workflowName actorName)
       (if action = changes_requested \<or> action = rejected then ACTION_REQUIRED else UPDATE)
       db"

section \<open>Queries\<close>

text \<open>\<^verbatim>\<open>findUnique({ where: { id } })\<close> on each table: the row with the identifier, if any.\<close>

definition user_findUnique :: "database \<Rightarrow> ident \<Rightarrow> User option" where
  "user_findUnique db i = find (\<lambda>u. user_id u = i) (users db)"

definition workflowTemplate_findUnique :: "database \<Rightarrow> ident \<Rightarrow> WorkflowTemplate option" where
  "workflowTemplate_findUnique db i = find (\<lambda>t. wt_id t = i) (workflowTemplates db)"

definition workflowStep_findUnique :: "database \<Rightarrow> ident \<Rightarrow> WorkflowStep option" where
  "workflowStep_findUnique db i = find (\<lambda>w. ws_id w = i) (workflowSteps db)"

definition processInstance_findUnique :: "database \<Rightarrow> ident \<Rightarrow> ProcessInstance option" where
  "processInstance_findUnique db i = find (\<lambda>p. pi_id p = i) (processInstances db)"

definition processStepInstance_findUnique ::
  "database \<Rightarrow> ident \<Rightarrow> ProcessStepInstance option" where
  "processStepInstance_findUnique db i = find (\<lambda>s. psi_id s = i) (processStepInstances db)"

text \<open>
  \<^verbatim>\<open>steps: { orderBy: { stepOrder: "asc" } }\<close>: the steps of a template in ascending
  step order. Rows of equal step order keep their table order (the database leaves the
  order of ties open).
\<close>

definition stepsOfTemplate :: "database \<Rightarrow> ident \<Rightarrow> WorkflowStep list" where
  "stepsOfTemplate db templateId =
     sort_key stepOrder (filter (\<lambda>s. ws_workflowTemplateId s = templateId) (workflowSteps db))"

text \<open>
  \<^verbatim>\<open>include: { workflowStep: true }\<close> on step instances. The relation is required: a
  step instance whose workflow step is gone makes the query throw.
\<close>

fun includeWorkflowStep ::
  "database \<Rightarrow> ProcessStepInstance list \<Rightarrow>
    (ProcessStepInstance \<times> WorkflowStep) list outcome" where
  "includeWorkflowStep db [] = Returned []"
| "includeWorkflowStep db (si # sis) =
     (case workflowStep_findUnique db (psi_workflowStepId si) of
        None \<Rightarrow> Thrown
      | Some w \<Rightarrow>
          (case includeWorkflowStep db sis of
             Thrown \<Rightarrow> Thrown
           | Returned rest \<Rightarrow> Returned ((si, w) # rest)))"

definition stepsOfProcess ::
  "database \<Rightarrow> ident \<Rightarrow> (ProcessStepInstance \<times> WorkflowStep) list outcome" where
  "stepsOfProcess db processId =
     (case includeWorkflowStep db
             (filter (\<lambda>s. psi_processInstanceId s = processId) (processStepInstances db)) of
        Thrown \<Rightarrow> Thrown
      | Returned rows \<Rightarrow> Returned (sort_key (\<lambda>r. stepOrder (snd r)) rows))"

text \<open>
  The step instance the action handler loads, with what it includes: its workflow step,
  its process, the process's template with the template's ordered steps, and the
  process's step instances with their workflow steps, ordered by step order. (The
  \<^verbatim>\<open>createdBy\<close> include is never read by the handler and is left out.)
\<close>

record LoadedStep =
  ls_stepInstance :: ProcessStepInstance
  ls_workflowStep :: WorkflowStep
  ls_process :: ProcessInstance
  ls_workflow :: WorkflowTemplate
  ls_workflowSteps :: "WorkflowStep list"
  ls_processSteps :: "(ProcessStepInstance \<times> WorkflowStep) list"

definition findStepInstance :: "database \<Rightarrow> ident \<Rightarrow> LoadedStep option outcome" where
  "findStepInstance db stepId =
     (case processStepInstance_findUnique db stepId of
        None \<Rightarrow> Returned None
      | Some si \<Rightarrow>
          (case workflowStep_findUnique db (psi_workflowStepId si) of
             None \<Rightarrow> Thrown
           | Some ws \<Rightarrow>
               (case processInstance_findUnique db (psi_processInstanceId si) of
                  None \<Rightarrow> Thrown
                | Some p \<Rightarrow>
                    (case workflowTemplate_findUnique db (pi_workflowTemplateId p) of
                       None \<Rightarrow> Thrown
                     | Some wt \<Rightarrow>
                         (case stepsOfProcess db (pi_id p) of
                            Thrown \<Rightarrow> Thrown
                          | Returned psteps \<Rightarrow>
                              Returned (Some
                                \<lparr>ls_stepInstance = si, ls_workflowStep = ws, ls_process = p,
                                  ls_workflow = wt,
                                  ls_workflowSteps = stepsOfTemplate db (wt_id wt),
                                  ls_processSteps = psteps\<rparr>))))))"

section \<open>Writes inside a transaction\<close>

text \<open>
  \<^verbatim>\<open>update\<close> throws when no row carries the identifier; the throw aborts the
  transaction, which is \<open>None\<close> here.
\<close>

definition updateStepInstance ::
  "ident \<Rightarrow> (ProcessStepInstance \<Rightarrow> ProcessStepInstance) \<Rightarrow> database \<Rightarrow> database option" where
  "updateStepInstance i f db =
     (if \<exists>s \<in> set (processStepInstances db). psi_id s = i
      then Some (db\<lparr>processStepInstances :=
                   map (\<lambda>s. if psi_id s = i then f s else s) (processStepInstances db)\<rparr>)
      else None)"

definition updateProcessInstance ::
  "ident \<Rightarrow> (ProcessInstance \<Rightarrow> ProcessInstance) \<Rightarrow> database \<Rightarrow> database option" where
  "updateProcessInstance i f db =
     (if \<exists>p \<in> set (processInstances db). pi_id p = i
      then Some (db\<lparr>processInstances :=
                   map (\<lambda>p. if pi_id p = i then f p else p) (processInstances db)\<rparr>)
      else None)"

definition setProcessStatus :: "ident \<Rightarrow> ProcessStatus \<Rightarrow> database \<Rightarrow> database option" where
  "setProcessStatus i st db = updateProcessInstance i (\<lambda>p. p\<lparr>pi_status := st\<rparr>) db"

section \<open>The step action handler (POST /api/processes/[id]/steps/[stepId]/action)\<close>

datatype Action = approve | reject | request_changes

definition actionOfString :: "string \<Rightarrow> Action option" where
  "actionOfString a =
     (if a = ''approve'' then Some approve
      else if a = ''reject'' then Some reject
      else if a = ''request_changes'' then Some request_changes
      else None)"

definition stringOfAction :: "Action \<Rightarrow> string" where
  "stringOfAction a =
     (case a of approve \<Rightarrow> ''approve'' | reject \<Rightarrow> ''reject''
      | request_changes \<Rightarrow> ''request_changes'')"

text \<open>
  \<^verbatim>\<open>actionSchema.safeParse(body)\<close>: an object whose \<open>action\<close> is one of the three
  strings and whose \<open>comments\<close>, when present, is a string. \<open>None\<close> is
  \<^verbatim>\<open>!result.success\<close>.
\<close>

definition actionSchema :: "json \<Rightarrow> (Action \<times> string option) option" where
  "actionSchema body =
     (case body of
        JObj kv \<Rightarrow>
          (case map_of kv ''action'' of
             Some (JStr a) \<Rightarrow>
               (case actionOfString a of
                  None \<Rightarrow> None
                | Some act \<Rightarrow>
                    (case map_of kv ''comments'' of
                       None \<Rightarrow> Some (act, None)
                     | Some (JStr c) \<Rightarrow> Some (act, Some c)
                     | Some _ \<Rightarrow> None))
           | _ \<Rightarrow> None)
      | _ \<Rightarrow> None)"

text \<open>
  The update of the acted step instance. A \<open>comments\<close> that is absent from the request
  is \<^verbatim>\<open>undefined\<close> in the update's data, which leaves the column as it is.
\<close>

definition actOn ::
  "Action \<Rightarrow> ident \<Rightarrow> timestamp \<Rightarrow> string option \<Rightarrow> ProcessStepInstance \<Rightarrow> ProcessStepInstance" where
  "actOn action userId now comments s =
     s\<lparr>psi_status := (if action = approve then Step_COMPLETED else Step_REJECTED),
       psi_actedById := Some userId,
       psi_actedAt := Some now,
       psi_comments := (case comments of None \<Rightarrow> psi_comments s | Some c \<Rightarrow> Some c)\<rparr>"

text \<open>The update that auto-completes a notification step: status and acted-at only.\<close>

definition autoComplete :: "timestamp \<Rightarrow> ProcessStepInstance \<Rightarrow> ProcessStepInstance" where
  "autoComplete now s = s\<lparr>psi_status := Step_COMPLETED, psi_actedAt := Some now\<rparr>"

text \<open>
  The body of \<^verbatim>\<open>db.$transaction\<close>. The next workflow step and the next step instance
  are looked up in what was loaded before the transaction, as the source does.
\<close>

definition actStepTransaction ::
  "timestamp \<Rightarrow> ident \<Rightarrow> LoadedStep \<Rightarrow> ident \<Rightarrow> ident \<Rightarrow> Action \<Rightarrow> string option \<Rightarrow>
     database \<Rightarrow> database option" where
  "actStepTransaction now userId stepInstance processId stepId action comments db =
     (case updateStepInstance stepId (actOn action userId now comments) db of
        None \<Rightarrow> None
      | Some db1 \<Rightarrow>
          (case action of
             approve \<Rightarrow>
               (let nextStepOrder = stepOrder (ls_workflowStep stepInstance) + 1 in
                case find (\<lambda>s. stepOrder s = nextStepOrder) (ls_workflowSteps stepInstance) of
                  Some nextWorkflowStep \<Rightarrow>
                    (case find (\<lambda>s. stepOrder (snd s) = nextStepOrder)
                            (ls_processSteps stepInstance) of
                       Some nextStepInstance \<Rightarrow>
                         if stepType nextWorkflowStep = NOTIFICATION then
                           (case updateStepInstance (psi_id (fst nextStepInstance))
                                   (autoComplete now) db1 of
                              None \<Rightarrow> None
                            | Some db2 \<Rightarrow>
                                (case find (\<lambda>s. stepOrder s = nextStepOrder + 1)
                                        (ls_workflowSteps stepInstance) of
                                   None \<Rightarrow> setProcessStatus processId COMPLETED db2
                                 | Some subsequentStep \<Rightarrow> Some db2))
                         else setProcessStatus processId IN_PROGRESS db1
                     | None \<Rightarrow> Some db1)
                | None \<Rightarrow> setProcessStatus processId COMPLETED db1)
           | reject \<Rightarrow> setProcessStatus processId REJECTED db1
           | request_changes \<Rightarrow> setProcessStatus processId CHANGES_REQUESTED db1))"

definition actionMap :: "Action \<Rightarrow> string" where
  "actionMap a =
     (case a of approve \<Rightarrow> ''STEP_COMPLETED'' | reject \<Rightarrow> ''STEP_REJECTED''
      | request_changes \<Rightarrow> ''CHANGES_REQUESTED'')"

definition notificationAction :: "Action \<Rightarrow> CreatorAction" where
  "notificationAction a =
     (case a of approve \<Rightarrow> approved | reject \<Rightarrow> rejected
      | request_changes \<Rightarrow> changes_requested)"

definition actionAuditEntry ::
  "ident \<Rightarrow> ident \<Rightarrow> string \<Rightarrow> Action \<Rightarrow> string option \<Rightarrow> AuditLog" where
  "actionAuditEntry processId userId stepName action comments =
     \<lparr>al_processInstanceId = Some processId,
      al_action = actionMap action,
      al_changedById = userId,
      al_previousValue = None,
      al_newValue = Some (JObj
        ([(''stepName'', JStr stepName), (''action'', JStr (stringOfAction action))] @
         (case comments of None \<Rightarrow> [] | Some c \<Rightarrow> [(''comments'', JStr c)]))),
      al_notes = Some (stepName @ '': '' @ stringOfAction action @
        (case comments of
           None \<Rightarrow> ''''
         | Some c \<Rightarrow> if c = '''' then '''' else '' - '' @ c))\<rparr>"

text \<open>
  After the transaction: the audit entry, the notification of the creator, and the
  notification of the approvers when the template has an APPROVAL step at the next
  step order.
\<close>

definition nextIsApproval :: "LoadedStep \<Rightarrow> bool" where
  "nextIsApproval stepInstance =
     (find (\<lambda>s. stepOrder s = stepOrder (ls_workflowStep stepInstance) + 1
                \<and> stepType s = APPROVAL)
        (ls_workflowSteps stepInstance) \<noteq> None)"

definition afterAction ::
  "SessionUser \<Rightarrow> LoadedStep \<Rightarrow> ident \<Rightarrow> Action \<Rightarrow> string option \<Rightarrow> database \<Rightarrow> database" where
  "afterAction user stepInstance processId action comments db =
     (let db1 = createAuditLog
                  (actionAuditEntry processId (su_id user)
                     (ws_name (ls_workflowStep stepInstance)) action comments) db;
          currentUser = user_findUnique db1 (su_id user);
          db2 = notifyProcessCreator processId (pi_createdById (ls_process stepInstance))
                  (notificationAction action) (wt_name (ls_workflow stepInstance))
                  (map_option user_name currentUser) db1
      in if action = approve \<and> nextIsApproval stepInstance
         then notifyApprovers processId (wt_name (ls_workflow stepInstance)) db2
         else db2)"

definition failed :: string where
  "failed = ''Failed to process action''"

text \<open>
  The handler. Its arguments are the clock, the database, the session, the two path
  parameters and the request body (\<open>None\<close> when \<^verbatim>\<open>request.json()\<close> throws); it
  answers with a response and the database it leaves behind.
\<close>

definition actStep ::
  "timestamp \<Rightarrow> database \<Rightarrow> SessionUser option \<Rightarrow> ident \<Rightarrow> ident \<Rightarrow> json option \<Rightarrow>
     ProcessInstance option response \<times> database" where
  "actStep now db session processId stepId body =
     (case session of
        None \<Rightarrow> (Failure 401 ''Unauthorized'', db)
      | Some user \<Rightarrow>
          if \<not> (su_role user = ADMIN \<or> su_role user = APPROVER)
          then (Failure 403 ''Forbidden'', db)
          else
            (case body of
               None \<Rightarrow> (Failure 500 failed, db)
             | Some b \<Rightarrow>
                 (case actionSchema b of
                    None \<Rightarrow> (Failure 400 ''Invalid request'', db)
                  | Some (action, comments) \<Rightarrow>
                      (case findStepInstance db stepId of
                         Thrown \<Rightarrow> (Failure 500 failed, db)
                       | Returned None \<Rightarrow> (Failure 404 ''Step not found'', db)
                       | Returned (Some stepInstance) \<Rightarrow>
                           if psi_processInstanceId (ls_stepInstance stepInstance) \<noteq> processId
                           then (Failure 400 ''Step does not belong to this process'', db)
                           else if psi_status (ls_stepInstance stepInstance) \<noteq> Step_PENDING
                           then (Failure 400 ''Step is not pending'', db)
                           else if stepType (ls_workflowStep stepInstance) \<noteq> APPROVAL
                           then (Failure 400
                                   ''This step type does not support approval actions'', db)
                           else
                             (case actStepTransaction now (su_id user) stepInstance processId
                                     stepId action comments db of
                                None \<Rightarrow> (Failure 500 failed, db)
                              | Some db1 \<Rightarrow>
                                  (let db2 = afterAction user stepInstance processId action
                                               comments db1
                                   in (Success 200 (processInstance_findUnique db2 processId),
                                       db2)))))))"

section \<open>Process creation (POST /api/processes)\<close>

text \<open>
  \<^verbatim>\<open>createProcessSchema.safeParse(body)\<close>: an object whose \<open>workflowTemplateId\<close>
  is a non-empty string and whose \<open>formData\<close> is an object.
\<close>

definition createProcessSchema :: "json \<Rightarrow> (ident \<times> json) option" where
  "createProcessSchema body =
     (case body of
        JObj kv \<Rightarrow>
          (case map_of kv ''workflowTemplateId'' of
             Some (JStr t) \<Rightarrow>
               if t = '''' then None
               else
                 (case map_of kv ''formData'' of
                    Some (JObj fd) \<Rightarrow> Some (t, JObj fd)
                  | _ \<Rightarrow> None)
           | _ \<Rightarrow> None)
      | _ \<Rightarrow> None)"

text \<open>
  The step instance created for the workflow step at position \<open>index\<close> of the ordered
  steps. The identifier of a new row is chosen by the database; \<open>newId\<close> stands for
  its generator.
\<close>

definition newStepInstance ::
  "timestamp \<Rightarrow> ident \<Rightarrow> ident \<Rightarrow> ident \<Rightarrow> nat \<Rightarrow> WorkflowStep \<Rightarrow> ProcessStepInstance" where
  "newStepInstance now rowId processInstanceId userId index step =
     \<lparr>psi_id = rowId,
      psi_processInstanceId = processInstanceId,
      psi_workflowStepId = ws_id step,
      psi_status = (if index = 0 \<and> stepType step = FORM then Step_COMPLETED else Step_PENDING),
      psi_actedById = (if index = 0 \<and> stepType step = FORM then Some userId else None),
      psi_actedAt = (if index = 0 \<and> stepType step = FORM then Some now else None),
      psi_comments = None\<rparr>"

definition newStepInstances ::
  "timestamp \<Rightarrow> (nat \<Rightarrow> ident) \<Rightarrow> ident \<Rightarrow> WorkflowStep list \<Rightarrow> ProcessStepInstance list" where
  "newStepInstances now newId userId steps =
     map (\<lambda>(index, step). newStepInstance now (newId (Suc index)) (newId 0) userId index step)
         (enumerate 0 steps)"

definition createProcessTransaction ::
  "timestamp \<Rightarrow> (nat \<Rightarrow> ident) \<Rightarrow> ident \<Rightarrow> ident \<Rightarrow> json \<Rightarrow> WorkflowStep list \<Rightarrow>
     database \<Rightarrow> database" where
  "createProcessTransaction now newId userId workflowTemplateId formData steps db =
     db\<lparr>processInstances := processInstances db @
           [\<lparr>pi_id = newId 0, pi_workflowTemplateId = workflowTemplateId,
             pi_createdById = userId, pi_formData = formData, pi_status = IN_PROGRESS\<rparr>],
        processStepInstances := processStepInstances db @
           newStepInstances now newId userId steps\<rparr>"

definition hasApprovalPending :: "WorkflowStep list \<Rightarrow> bool" where
  "hasApprovalPending steps =
     list_ex (\<lambda>(index, step). stepType step = APPROVAL \<and>
                (index = 0 \<or> (index = 1 \<and> stepType (steps ! 0) = FORM)))
             (enumerate 0 steps)"

definition afterCreate ::
  "(nat \<Rightarrow> ident) \<Rightarrow> ident \<Rightarrow> WorkflowTemplate \<Rightarrow> WorkflowStep list \<Rightarrow> json \<Rightarrow>
     database \<Rightarrow> database" where
  "afterCreate newId userId workflow steps formData db =
     (let db1 = createAuditLog
                  \<lparr>al_processInstanceId = Some (newId 0),
                   al_action = ''PROCESS_CREATED'',
                   al_changedById = userId,
                   al_previousValue = None,
                   al_newValue = Some (JObj [(''workflowName'', JStr (wt_name workflow)),
                                             (''formData'', formData)]),
                   al_notes = Some (''Process started for '' @ dquote @ wt_name workflow
                                      @ dquote)\<rparr> db;
          db2 = createNotification userId (Some (newId 0))
                  (''Your '' @ dquote @ wt_name workflow @ dquote
                     @ '' request has been submitted'') INFO db1
      in if hasApprovalPending steps then notifyApprovers (newId 0) (wt_name workflow) db2
         else db2)"

definition createFailed :: string where
  "createFailed = ''Failed to create process''"

definition createProcess ::
  "timestamp \<Rightarrow> (nat \<Rightarrow> ident) \<Rightarrow> database \<Rightarrow> SessionUser option \<Rightarrow> json option \<Rightarrow>
     ProcessInstance option response \<times> database" where
  "createProcess now newId db session body =
     (case session of
        None \<Rightarrow> (Failure 401 ''Unauthorized'', db)
      | Some user \<Rightarrow>
          (case body of
             None \<Rightarrow> (Failure 500 createFailed, db)
           | Some b \<Rightarrow>
               (case createProcessSchema b of
                  None \<Rightarrow> (Failure 400 ''Invalid request'', db)
                | Some (workflowTemplateId, formData) \<Rightarrow>
                    (case workflowTemplate_findUnique db workflowTemplateId of
                       None \<Rightarrow> (Failure 404 ''Workflow not found'', db)
                     | Some workflow \<Rightarrow>
                         if wt_status workflow \<noteq> ACTIVE
                         then (Failure 400 ''Workflow is not active'', db)
                         else if length (stepsOfTemplate db workflowTemplateId) = 0
                         then (Failure 400 ''Workflow has no steps defined'', db)
                         else
                           (let steps = stepsOfTemplate db workflowTemplateId;
                                db1 = createProcessTransaction now newId (su_id user)
                                        workflowTemplateId formData steps db;
                                db2 = afterCreate newId (su_id user) workflow steps formData db1
                            in (Success 201 (processInstance_findUnique db2 (newId 0)),
                                db2))))))"

section \<open>Template status (PATCH /api/workflows/[id]/status)\<close>

definition statusOfString :: "string \<Rightarrow> WorkflowStatus option" where
  "statusOfString s =
     (if s = ''DRAFT'' then Some DRAFT
      else if s = ''ACTIVE'' then Some ACTIVE
      else if s = ''ARCHIVED'' then Some ARCHIVED
      else None)"

definition stringOfStatus :: "WorkflowStatus \<Rightarrow> string" where
  "stringOfStatus s =
     (case s of DRAFT \<Rightarrow> ''DRAFT'' | ACTIVE \<Rightarrow> ''ACTIVE'' | ARCHIVED \<Rightarrow> ''ARCHIVED'')"

definition updateStatusSchema :: "json \<Rightarrow> WorkflowStatus option" where
  "updateStatusSchema body =
     (case body of
        JObj kv \<Rightarrow>
          (case map_of kv ''status'' of
             Some (JStr s) \<Rightarrow> statusOfString s
           | _ \<Rightarrow> None)
      | _ \<Rightarrow> None)"

definition statusFailed :: string where
  "statusFailed = ''Failed to update workflow status''"

definition statusAuditEntry :: "ident \<Rightarrow> WorkflowTemplate \<Rightarrow> WorkflowStatus \<Rightarrow> AuditLog" where
  "statusAuditEntry userId existingWorkflow status =
     \<lparr>al_processInstanceId = None,
      al_action = ''WORKFLOW_STATUS_CHANGED'',
      al_changedById = userId,
      al_previousValue =
        Some (JObj [(''status'', JStr (stringOfStatus (wt_status existingWorkflow)))]),
      al_newValue = Some (JObj [(''status'', JStr (stringOfStatus status))]),
      al_notes = Some (''Workflow '' @ dquote @ wt_name existingWorkflow @ dquote
                        @ '' status changed from ''
                        @ stringOfStatus (wt_status existingWorkflow)
                        @ '' to '' @ stringOfStatus status)\<rparr>"

text \<open>
  The handler reads the template with \<^verbatim>\<open>include: { steps: true, formSchema: true }\<close>:
  the template's steps (in no particular order) and its form schema, if any.
\<close>

definition setTemplateStatus ::
  "database \<Rightarrow> SessionUser option \<Rightarrow> ident \<Rightarrow> json option \<Rightarrow>
     WorkflowTemplate response \<times> database" where
  "setTemplateStatus db session templateId body =
     (case session of
        None \<Rightarrow> (Failure 401 ''Unauthorized'', db)
      | Some user \<Rightarrow>
          if su_role user \<noteq> ADMIN then (Failure 403 ''Forbidden'', db)
          else
            (case body of
               None \<Rightarrow> (Failure 500 statusFailed, db)
             | Some b \<Rightarrow>
                 (case updateStatusSchema b of
                    None \<Rightarrow> (Failure 400 ''Invalid request'', db)
                  | Some status \<Rightarrow>
                      (case workflowTemplate_findUnique db templateId of
                         None \<Rightarrow> (Failure 404 ''Workflow not found'', db)
                       | Some existingWorkflow \<Rightarrow>
                           (let steps = filter (\<lambda>s. ws_workflowTemplateId s = templateId)
                                          (workflowSteps db);
                                formSchema = find (\<lambda>f. fs_workflowTemplateId f = templateId)
                                               (formSchemas db);
                                hasFormStep = list_ex (\<lambda>s. stepType s = FORM) steps
                            in if status = ACTIVE \<and> length steps = 0
                               then (Failure 400
                                 ''Workflow must have at least one step to be activated'', db)
                               else if status = ACTIVE \<and> hasFormStep \<and> formSchema = None
                               then (Failure 400
                                 ''Workflow with form step must have a form schema defined'', db)
                               else
                                 (let workflow = existingWorkflow\<lparr>wt_status := status\<rparr>;
                                      db1 = db\<lparr>workflowTemplates :=
                                              map (\<lambda>t. if wt_id t = templateId
                                                        then t\<lparr>wt_status := status\<rparr> else t)
                                                  (workflowTemplates db)\<rparr>;
                                      db2 = createAuditLog
                                              (statusAuditEntry (su_id user) existingWorkflow
                                                 status) db1
                                  in (Success 200 workflow, db2)))))))"

section \<open>Example databases\<close>

text \<open>
  A database before any process is started: three users, one per role, and six
  templates. \<open>t1\<close> is a form, an approval and a notification; \<open>t2\<close> is two approvals;
  \<open>t3\<close> has a single form step whose step order is 2; \<open>t4\<close> is a draft without steps;
  \<open>t5\<close> is a draft with a form step and no form schema; \<open>t6\<close> is active and
  has no steps.
\<close>

definition demo :: database where
  "demo =
     \<lparr>users = [\<lparr>user_id = ''u1'', user_name = ''Ada'', user_role = ADMIN\<rparr>,
               \<lparr>user_id = ''u2'', user_name = ''Bob'', user_role = APPROVER\<rparr>,
               \<lparr>user_id = ''u3'', user_name = ''Cy'', user_role = USER\<rparr>],
      workflowTemplates =
              [\<lparr>wt_id = ''t1'', wt_name = ''Leave'', wt_status = ACTIVE\<rparr>,
               \<lparr>wt_id = ''t2'', wt_name = ''Spend'', wt_status = ACTIVE\<rparr>,
               \<lparr>wt_id = ''t3'', wt_name = ''Late'', wt_status = ACTIVE\<rparr>,
               \<lparr>wt_id = ''t4'', wt_name = ''Empty'', wt_status = DRAFT\<rparr>,
               \<lparr>wt_id = ''t5'', wt_name = ''Bare'', wt_status = DRAFT\<rparr>,
               \<lparr>wt_id = ''t6'', wt_name = ''Hollow'', wt_status = ACTIVE\<rparr>],
      workflowSteps =
              [\<lparr>ws_id = ''w1'', ws_workflowTemplateId = ''t1'', stepOrder = 1,
                stepType = FORM, ws_name = ''Submit''\<rparr>,
               \<lparr>ws_id = ''w2'', ws_workflowTemplateId = ''t1'', stepOrder = 2,
                stepType = APPROVAL, ws_name = ''Manager''\<rparr>,
               \<lparr>ws_id = ''w3'', ws_workflowTemplateId = ''t1'', stepOrder = 3,
                stepType = NOTIFICATION, ws_name = ''Tell''\<rparr>,
               \<lparr>ws_id = ''w4'', ws_workflowTemplateId = ''t2'', stepOrder = 1,
                stepType = APPROVAL, ws_name = ''First''\<rparr>,
               \<lparr>ws_id = ''w5'', ws_workflowTemplateId = ''t2'', stepOrder = 2,
                stepType = APPROVAL, ws_name = ''Second''\<rparr>,
               \<lparr>ws_id = ''w6'', ws_workflowTemplateId = ''t3'', stepOrder = 2,
                stepType = FORM, ws_name = ''Fill''\<rparr>,
               \<lparr>ws_id = ''w7'', ws_workflowTemplateId = ''t5'', stepOrder = 1,
                stepType = FORM, ws_name = ''Ask''\<rparr>],
      formSchemas = [\<lparr>fs_workflowTemplateId = ''t1'', fs_fields = JArr []\<rparr>,
                     \<lparr>fs_workflowTemplateId = ''t3'', fs_fields = JArr []\<rparr>],
      processInstances = [],
      processStepInstances = [],
      auditLogs = [],
      notifications = []\<rparr>"

definition admin :: SessionUser where
  "admin = \<lparr>su_id = ''u1'', su_role = ADMIN\<rparr>"

definition approver :: SessionUser where
  "approver = \<lparr>su_id = ''u2'', su_role = APPROVER\<rparr>"

definition requester :: SessionUser where
  "requester = \<lparr>su_id = ''u3'', su_role = USER\<rparr>"

text \<open>The identifiers the database hands out to new rows in the examples.\<close>

definition ids :: "nat \<Rightarrow> ident" where
  "ids k = replicate (Suc k) CHR ''i''"

definition startBody :: "ident \<Rightarrow> json" where
  "startBody templateId =
     JObj [(''workflowTemplateId'', JStr templateId), (''formData'', JObj [])]"

definition statusBody :: "string \<Rightarrow> json" where
  "statusBody s = JObj [(''status'', JStr s)]"

definition actionBody :: "string \<Rightarrow> json" where
  "actionBody a = JObj [(''action'', JStr a)]"

definition commentedBody :: "string \<Rightarrow> string \<Rightarrow> json" where
  "commentedBody a c = JObj [(''action'', JStr a), (''comments'', JStr c)]"

text \<open>
  The same database with two processes under way, as creation leaves them: \<open>p1\<close> on
  \<open>t1\<close>, its form step completed by the creator, and \<open>p2\<close> on \<open>t2\<close>, both approvals
  pending.
\<close>

definition running :: database where
  "running = demo
     \<lparr>processInstances :=
        [\<lparr>pi_id = ''p1'', pi_workflowTemplateId = ''t1'', pi_createdById = ''u3'',
          pi_formData = JObj [], pi_status = IN_PROGRESS\<rparr>,
         \<lparr>pi_id = ''p2'', pi_workflowTemplateId = ''t2'', pi_createdById = ''u3'',
          pi_formData = JObj [], pi_status = IN_PROGRESS\<rparr>],
      processStepInstances :=
        [\<lparr>psi_id = ''s1'', psi_processInstanceId = ''p1'', psi_workflowStepId = ''w1'',
          psi_status = Step_COMPLETED, psi_actedById = Some ''u3'', psi_actedAt = Some 5,
          psi_comments = None\<rparr>,
         \<lparr>psi_id = ''s2'', psi_processInstanceId = ''p1'', psi_workflowStepId = ''w2'',
          psi_status = Step_PENDING, psi_actedById = None, psi_actedAt = None,
          psi_comments = None\<rparr>,
         \<lparr>psi_id = ''s3'', psi_processInstanceId = ''p1'', psi_workflowStepId = ''w3'',
          psi_status = Step_PENDING, psi_actedById = None, psi_actedAt = None,
          psi_comments = None\<rparr>,
         \<lparr>psi_id = ''s4'', psi_processInstanceId = ''p2'', psi_workflowStepId = ''w4'',
          psi_status = Step_PENDING, psi_actedById = None, psi_actedAt = None,
          psi_comments = None\<rparr>,
         \<lparr>psi_id = ''s5'', psi_processInstanceId = ''p2'', psi_workflowStepId = ''w5'',
          psi_status = Step_PENDING, psi_actedById = None, psi_actedAt = None,
          psi_comments = None\<rparr>]\<rparr>"

text \<open>
  Two runs of the handlers. \<open>started\<close>: the requester starts a process on \<open>t2\<close> in
  the database \<open>demo\<close>; the process gets the identifier \<open>i\<close> and its two step instances
  \<open>ii\<close> and \<open>iii\<close>. \<open>declined\<close>: the approver then rejects the first approval step.
\<close>

definition started :: database where
  "started = snd (createProcess 5 ids demo (Some requester) (Some (startBody ''t2'')))"

definition declined :: database where
  "declined = snd (actStep 6 started (Some approver) ''i'' ''ii''
                     (Some (actionBody ''reject'')))"

section \<open>Lookups after an update\<close>

lemma find_update_same:
  assumes "\<And>x. key (f x) = key x"
  shows "find (\<lambda>x. key x = i) (map (\<lambda>x. if key x = i then f x else x) xs)
           = map_option f (find (\<lambda>x. key x = i) xs)"
  using assms by (induction xs) auto


section \<open>Activation guards of a template\<close>

text \<open>
  Claim C9. For an administrator sending a well-formed status, on an existing template:
  setting the status to ACTIVE fails with status 400 (the validation error) when the
  template has no steps, and also when one of its steps is a FORM step and the template
  has no form schema; the database, and with it the template's status, is then left as
  it was. Setting any other status (DRAFT or ARCHIVED) succeeds and stores that status,
  whatever the steps and the form schema are.
\<close>

theorem setTemplateStatus_activation_guards:
  assumes "session = Some user" and "su_role user = ADMIN"
    and "body = Some b" and "updateStatusSchema b = Some status"
    and "workflowTemplate_findUnique db templateId = Some t"
  shows "(status = ACTIVE \<and>
            (\<forall>s \<in> set (workflowSteps db). ws_workflowTemplateId s \<noteq> templateId) \<longrightarrow>
          setTemplateStatus db session templateId body =
            (Failure 400 ''Workflow must have at least one step to be activated'', db))
       \<and> (status = ACTIVE \<and>
            (\<exists>s \<in> set (workflowSteps db). ws_workflowTemplateId s = templateId
                                           \<and> stepType s = FORM) \<and>
            (\<forall>f \<in> set (formSchemas db). fs_workflowTemplateId f \<noteq> templateId) \<longrightarrow>
          setTemplateStatus db session templateId body =
            (Failure 400 ''Workflow with form step must have a form schema defined'', db))
       \<and> (status \<noteq> ACTIVE \<longrightarrow>
          (\<exists>db'. setTemplateStatus db session templateId body =
                   (Success 200 (t\<lparr>wt_status := status\<rparr>), db')
               \<and> workflowTemplate_findUnique db' templateId = Some (t\<lparr>wt_status := status\<rparr>)))"
proof -
  have upd: "workflowTemplate_findUnique
               (createAuditLog e (db\<lparr>workflowTemplates :=
                  map (\<lambda>x. if wt_id x = templateId then x\<lparr>wt_status := status\<rparr> else x)
                      (workflowTemplates db)\<rparr>)) templateId
             = Some (t\<lparr>wt_status := status\<rparr>)" for e
    using assms(5)
    by (simp add: workflowTemplate_findUnique_def createAuditLog_def
                  find_update_same [where key = wt_id])
  show ?thesis
    using assms upd
    by (auto simp: setTemplateStatus_def Let_def list_ex_iff filter_empty_conv find_None_iff)
qed

theorem setTemplateStatus_activation_guards_witness:
  "setTemplateStatus demo (Some admin) ''t4'' (Some (statusBody ''ACTIVE''))
     = (Failure 400 ''Workflow must have at least one step to be activated'', demo)
   \<and> setTemplateStatus demo (Some admin) ''t5'' (Some (statusBody ''ACTIVE''))
     = (Failure 400 ''Workflow with form step must have a form schema defined'', demo)
   \<and> (\<exists>db'. setTemplateStatus demo (Some admin) ''t5'' (Some (statusBody ''ARCHIVED''))
              = (Success 200 \<lparr>wt_id = ''t5'', wt_name = ''Bare'', wt_status = ARCHIVED\<rparr>, db')
          \<and> workflowTemplate_findUnique db' ''t5''
              = Some \<lparr>wt_id = ''t5'', wt_name = ''Bare'', wt_status = ARCHIVED\<rparr>)"
proof -
  have a: "su_role admin = ADMIN"
    by (simp add: admin_def)
  have p1: "updateStatusSchema (statusBody ''ACTIVE'') = Some ACTIVE"
    by (simp add: updateStatusSchema_def statusBody_def statusOfString_def)
  have p2: "updateStatusSchema (statusBody ''ARCHIVED'') = Some ARCHIVED"
    by (simp add: updateStatusSchema_def statusBody_def statusOfString_def)
  have t4: "workflowTemplate_findUnique demo ''t4''
              = Some \<lparr>wt_id = ''t4'', wt_name = ''Empty'', wt_status = DRAFT\<rparr>"
    by (simp add: workflowTemplate_findUnique_def demo_def)
  have t5: "workflowTemplate_findUnique demo ''t5''
              = Some \<lparr>wt_id = ''t5'', wt_name = ''Bare'', wt_status = DRAFT\<rparr>"
    by (simp add: workflowTemplate_findUnique_def demo_def)
  have s4: "\<forall>s \<in> set (workflowSteps demo). ws_workflowTemplateId s \<noteq> ''t4''"
    by (simp add: demo_def)
  have s5: "\<exists>s \<in> set (workflowSteps demo). ws_workflowTemplateId s = ''t5'' \<and> stepType s = FORM"
    by (simp add: demo_def)
  have f5: "\<forall>f \<in> set (formSchemas demo). fs_workflowTemplateId f \<noteq> ''t5''"
    by (simp add: demo_def)
  show ?thesis
    using setTemplateStatus_activation_guards [OF refl a refl p1 t4]
          setTemplateStatus_activation_guards [OF refl a refl p1 t5]
          setTemplateStatus_activation_guards [OF refl a refl p2 t5]
          s4 s5 f5
    by simp
qed

section \<open>Preconditions of process creation\<close>

text \<open>
  Claim C7. For an authenticated caller sending a well-formed body: creating a process
  fails with status 404 (not found) when the template does not exist, with status 400
  (the validation error) when the template is not ACTIVE, and with status 400 when it
  has no steps. In each case the database is returned as it was, and more generally
  every failed creation leaves the database unchanged: no process, step instance, audit
  entry or notification is written.
\<close>

theorem createProcess_preconditions:
  assumes "session = Some user" and "body = Some b"
    and "createProcessSchema b = Some (templateId, formData)"
  shows "(workflowTemplate_findUnique db templateId = None \<longrightarrow>
            createProcess now newId db session body = (Failure 404 ''Workflow not found'', db))
       \<and> (\<forall>t. workflowTemplate_findUnique db templateId = Some t \<and> wt_status t \<noteq> ACTIVE \<longrightarrow>
            createProcess now newId db session body
              = (Failure 400 ''Workflow is not active'', db))
       \<and> (\<forall>t. workflowTemplate_findUnique db templateId = Some t \<and> wt_status t = ACTIVE \<and>
              (\<forall>s \<in> set (workflowSteps db). ws_workflowTemplateId s \<noteq> templateId) \<longrightarrow>
            createProcess now newId db session body
              = (Failure 400 ''Workflow has no steps defined'', db))
       \<and> (\<forall>code msg db'. createProcess now newId db session body = (Failure code msg, db')
              \<longrightarrow> db' = db)"
  using assms
  by (auto simp: createProcess_def Let_def stepsOfTemplate_def filter_empty_conv
           split: option.splits if_splits)

theorem createProcess_preconditions_witness:
  "createProcess 7 ids demo (Some requester) (Some (startBody ''t9''))
     = (Failure 404 ''Workflow not found'', demo)
   \<and> createProcess 7 ids demo (Some requester) (Some (startBody ''t4''))
     = (Failure 400 ''Workflow is not active'', demo)
   \<and> createProcess 7 ids demo (Some requester) (Some (startBody ''t6''))
     = (Failure 400 ''Workflow has no steps defined'', demo)"
proof -
  have p: "createProcessSchema (startBody t) = Some (t, JObj [])" if "t \<noteq> []" for t
    using that by (simp add: createProcessSchema_def startBody_def)
  have t9: "workflowTemplate_findUnique demo ''t9'' = None"
    by (simp add: workflowTemplate_findUnique_def demo_def)
  have t4: "workflowTemplate_findUnique demo ''t4''
              = Some \<lparr>wt_id = ''t4'', wt_name = ''Empty'', wt_status = DRAFT\<rparr>"
    by (simp add: workflowTemplate_findUnique_def demo_def)
  have t6: "workflowTemplate_findUnique demo ''t6''
              = Some \<lparr>wt_id = ''t6'', wt_name = ''Hollow'', wt_status = ACTIVE\<rparr>"
    by (simp add: workflowTemplate_findUnique_def demo_def)
  have s6: "\<forall>s \<in> set (workflowSteps demo). ws_workflowTemplateId s \<noteq> ''t6''"
    by (simp add: demo_def)
  show ?thesis
    using createProcess_preconditions [OF refl refl p, of "''t9''" demo 7 ids]
          createProcess_preconditions [OF refl refl p, of "''t4''" demo 7 ids]
          createProcess_preconditions [OF refl refl p, of "''t6''" demo 7 ids]
          t9 t4 t6 s6
    by simp
qed

section \<open>What the handlers leave untouched\<close>

text \<open>The definitions that evaluate the step action handler on the example databases.\<close>

lemmas actStep_eval = actStep_def actionSchema_def actionOfString_def actionBody_def
  commentedBody_def
  findStepInstance_def processStepInstance_findUnique_def workflowStep_findUnique_def
  processInstance_findUnique_def workflowTemplate_findUnique_def user_findUnique_def
  stepsOfProcess_def stepsOfTemplate_def actStepTransaction_def updateStepInstance_def
  updateProcessInstance_def setProcessStatus_def actOn_def autoComplete_def
  afterAction_def createAuditLog_def createNotification_def notifyProcessCreator_def
  notifyApprovers_def approvers_def nextIsApproval_def
  running_def demo_def approver_def admin_def requester_def Let_def

text \<open>The definitions that evaluate process creation on the example databases.\<close>

lemmas createProcess_eval = createProcess_def createProcessSchema_def startBody_def
  workflowTemplate_findUnique_def stepsOfTemplate_def createProcessTransaction_def
  newStepInstances_def newStepInstance_def afterCreate_def createAuditLog_def
  createNotification_def hasApprovalPending_def notifyApprovers_def approvers_def
  processInstance_findUnique_def demo_def ids_def requester_def dquote_def Let_def

lemma notifyApprovers_eq:
  "notifyApprovers processInstanceId workflowName db =
     db\<lparr>notifications := notifications db @
          map (\<lambda>u. \<lparr>n_userId = user_id u, n_processInstanceId = Some processInstanceId,
                     n_message = ''New approval request: '' @ workflowName,
                     n_type = ACTION_REQUIRED, n_isRead = False\<rparr>)
              (approvers db)\<rparr>"
proof -
  have "fold (\<lambda>a. createNotification (user_id a) p m t) xs d =
          d\<lparr>notifications := notifications d @
              map (\<lambda>u. \<lparr>n_userId = user_id u, n_processInstanceId = p, n_message = m,
                         n_type = t, n_isRead = False\<rparr>) xs\<rparr>" for p m t xs d
    by (induction xs arbitrary: d) (simp_all add: createNotification_def)
  then show ?thesis
    by (simp add: notifyApprovers_def)
qed

lemma afterAction_tables:
  "processInstances (afterAction user L processId action comments db) = processInstances db"
  "processStepInstances (afterAction user L processId action comments db)
     = processStepInstances db"
  "users (afterAction user L processId action comments db) = users db"
  "workflowSteps (afterAction user L processId action comments db) = workflowSteps db"
  "workflowTemplates (afterAction user L processId action comments db) = workflowTemplates db"
  by (simp_all add: afterAction_def Let_def notifyApprovers_eq notifyProcessCreator_def
        createNotification_def createAuditLog_def)

lemma afterAction_notifications:
  "notifications (afterAction user L processId action comments db) =
     notifications db @
     [\<lparr>n_userId = pi_createdById (ls_process L), n_processInstanceId = Some processId,
       n_message = actionMessages (notificationAction action) (wt_name (ls_workflow L))
                     (map_option user_name (user_findUnique db (su_id user))),
       n_type = (if action = approve then UPDATE else ACTION_REQUIRED), n_isRead = False\<rparr>] @
     (if action = approve \<and> nextIsApproval L
      then map (\<lambda>u. \<lparr>n_userId = user_id u, n_processInstanceId = Some processId,
                      n_message = ''New approval request: '' @ wt_name (ls_workflow L),
                      n_type = ACTION_REQUIRED, n_isRead = False\<rparr>) (approvers db)
      else [])"
  by (cases action)
     (simp_all add: afterAction_def Let_def notifyApprovers_eq notifyProcessCreator_def
        createNotification_def createAuditLog_def notificationAction_def approvers_def
        user_findUnique_def)

lemma updateStepInstance_Some:
  assumes "updateStepInstance i f db = Some db1"
  shows "db1 = db\<lparr>processStepInstances :=
                  map (\<lambda>s. if psi_id s = i then f s else s) (processStepInstances db)\<rparr>"
    and "\<exists>s \<in> set (processStepInstances db). psi_id s = i"
  using assms by (auto simp: updateStepInstance_def split: if_splits)

lemma setProcessStatus_Some:
  assumes "setProcessStatus i st db = Some db1"
  shows "db1 = db\<lparr>processInstances :=
                  map (\<lambda>p. if pi_id p = i then p\<lparr>pi_status := st\<rparr> else p)
                      (processInstances db)\<rparr>"
    and "\<exists>p \<in> set (processInstances db). pi_id p = i"
  using assms
  by (auto simp: setProcessStatus_def updateProcessInstance_def split: if_splits)

lemma setProcessStatus_find:
  assumes "setProcessStatus i st db = Some db1"
  shows "\<exists>p. processInstance_findUnique db i = Some p
           \<and> processInstance_findUnique db1 i = Some (p\<lparr>pi_status := st\<rparr>)"
proof -
  from setProcessStatus_Some [OF assms]
  obtain q where q: "q \<in> set (processInstances db)" "pi_id q = i"
    and db1: "db1 = db\<lparr>processInstances :=
                  map (\<lambda>p. if pi_id p = i then p\<lparr>pi_status := st\<rparr> else p)
                      (processInstances db)\<rparr>"
    by blast
  from q obtain p where p: "find (\<lambda>p. pi_id p = i) (processInstances db) = Some p"
    by (cases "find (\<lambda>p. pi_id p = i) (processInstances db)") (auto simp: find_None_iff)
  show ?thesis
    using p db1
    by (simp add: processInstance_findUnique_def find_update_same [where key = pi_id])
qed

section \<open>A successful step action, taken apart\<close>

lemma actStep_success:
  assumes "actStep now db session processId stepId body = (Success code v, db')"
  obtains user b action comments L db1 where
    "session = Some user" "su_role user = ADMIN \<or> su_role user = APPROVER"
    "body = Some b" "actionSchema b = Some (action, comments)"
    "findStepInstance db stepId = Returned (Some L)"
    "psi_processInstanceId (ls_stepInstance L) = processId"
    "psi_status (ls_stepInstance L) = Step_PENDING"
    "stepType (ls_workflowStep L) = APPROVAL"
    "actStepTransaction now (su_id user) L processId stepId action comments db = Some db1"
    "db' = afterAction user L processId action comments db1"
    "code = 200" "v = processInstance_findUnique db' processId"
  using assms
  by (auto simp: actStep_def Let_def
           split: option.splits if_splits outcome.splits prod.splits)

lemma findStepInstance_Some:
  assumes "findStepInstance db stepId = Returned (Some L)"
  obtains si ws p wt psteps where
    "processStepInstance_findUnique db stepId = Some si"
    "workflowStep_findUnique db (psi_workflowStepId si) = Some ws"
    "processInstance_findUnique db (psi_processInstanceId si) = Some p"
    "workflowTemplate_findUnique db (pi_workflowTemplateId p) = Some wt"
    "stepsOfProcess db (pi_id p) = Returned psteps"
    "L = \<lparr>ls_stepInstance = si, ls_workflowStep = ws, ls_process = p, ls_workflow = wt,
          ls_workflowSteps = stepsOfTemplate db (wt_id wt), ls_processSteps = psteps\<rparr>"
  using assms
  by (auto simp: findStepInstance_def split: option.splits outcome.splits)

text \<open>The effect of an action other than approve on the two tables.\<close>

lemma decline_effect:
  assumes ok: "actStep now db session processId stepId body = (Success code v, db')"
    and s: "session = Some user" and b: "body = Some b"
    and a: "actionSchema b = Some (action, comments)" and na: "action \<noteq> approve"
  shows "processStepInstances db' =
           map (\<lambda>s. if psi_id s = stepId then actOn action (su_id user) now comments s else s)
               (processStepInstances db)"
    and "\<exists>si. processStepInstance_findUnique db stepId = Some si
            \<and> psi_processInstanceId si = processId \<and> psi_status si = Step_PENDING
            \<and> processStepInstance_findUnique db' stepId
                 = Some (actOn action (su_id user) now comments si)"
    and "\<exists>p. processInstance_findUnique db processId = Some p
            \<and> processInstance_findUnique db' processId
                 = Some (p\<lparr>pi_status := (if action = reject then REJECTED
                                          else CHANGES_REQUESTED)\<rparr>)"
proof -
  from ok obtain L db1 where
    L: "findStepInstance db stepId = Returned (Some L)"
      "psi_processInstanceId (ls_stepInstance L) = processId"
      "psi_status (ls_stepInstance L) = Step_PENDING"
    and tx: "actStepTransaction now (su_id user) L processId stepId action comments db = Some db1"
    and db': "db' = afterAction user L processId action comments db1"
    using s b a by (auto elim!: actStep_success)
  from tx na obtain db0 where
    u: "updateStepInstance stepId (actOn action (su_id user) now comments) db = Some db0"
    and p: "setProcessStatus processId
              (if action = reject then REJECTED else CHANGES_REQUESTED) db0 = Some db1"
    by (cases action) (auto simp: actStepTransaction_def split: option.splits)
  note u' = updateStepInstance_Some [OF u]
  note p' = setProcessStatus_Some [OF p]
  show steps: "processStepInstances db' =
           map (\<lambda>s. if psi_id s = stepId then actOn action (su_id user) now comments s else s)
               (processStepInstances db)"
    using u'(1) p'(1) db' by (simp add: afterAction_tables)
  from L obtain si where si: "processStepInstance_findUnique db stepId = Some si"
    "ls_stepInstance L = si"
    by (auto elim!: findStepInstance_Some)
  have "processStepInstance_findUnique db' stepId
          = Some (actOn action (su_id user) now comments si)"
    using si(1) steps
    by (simp add: processStepInstance_findUnique_def find_update_same [where key = psi_id]
          actOn_def)
  then show "\<exists>si. processStepInstance_findUnique db stepId = Some si
            \<and> psi_processInstanceId si = processId \<and> psi_status si = Step_PENDING
            \<and> processStepInstance_findUnique db' stepId
                 = Some (actOn action (su_id user) now comments si)"
    using si L by auto
  have "processInstances db0 = processInstances db"
    using u'(1) by simp
  then have "processInstance_findUnique db0 = processInstance_findUnique db"
    by (simp add: processInstance_findUnique_def fun_eq_iff)
  moreover have "processInstance_findUnique db' = processInstance_findUnique db1"
    using db' by (simp add: processInstance_findUnique_def fun_eq_iff afterAction_tables)
  ultimately show "\<exists>p. processInstance_findUnique db processId = Some p
            \<and> processInstance_findUnique db' processId
                 = Some (p\<lparr>pi_status := (if action = reject then REJECTED
                                          else CHANGES_REQUESTED)\<rparr>)"
    using setProcessStatus_find [OF p] by simp
qed

section \<open>Rows, keys and joins\<close>

lemma find_map_key:
  assumes "\<And>x. key (h x) = key x"
  shows "find (\<lambda>x. key x = j) (map h xs) = map_option h (find (\<lambda>x. key x = j) xs)"
  using assms by (induction xs) auto

lemma find_distinct_key:
  assumes "distinct (map key xs)" and "a \<in> set xs"
  shows "find (\<lambda>x. key x = key a) xs = Some a"
  using assms by (induction xs) (auto simp: image_iff)

lemma find_Some_holds:
  "find P xs = Some y \<Longrightarrow> P y \<and> y \<in> set xs"
  by (induction xs) (auto split: if_splits)

lemma includeWorkflowStep_set:
  assumes "includeWorkflowStep db sis = Returned rows" and "r \<in> set rows"
  shows "fst r \<in> set sis
       \<and> workflowStep_findUnique db (psi_workflowStepId (fst r)) = Some (snd r)"
  using assms
  by (induction sis arbitrary: rows) (auto split: option.splits outcome.splits)

lemma stepsOfProcess_set:
  assumes "stepsOfProcess db processId = Returned rows" and "r \<in> set rows"
  shows "fst r \<in> set (processStepInstances db)
       \<and> psi_processInstanceId (fst r) = processId
       \<and> workflowStep_findUnique db (psi_workflowStepId (fst r)) = Some (snd r)"
proof -
  from assms obtain rows0 where
    j: "includeWorkflowStep db
          (filter (\<lambda>s. psi_processInstanceId s = processId) (processStepInstances db))
        = Returned rows0"
    and "rows = sort_key (\<lambda>r. stepOrder (snd r)) rows0"
    by (auto simp: stepsOfProcess_def split: outcome.splits)
  with assms(2) have "r \<in> set rows0"
    by simp
  from includeWorkflowStep_set [OF j this] show ?thesis
    by auto
qed

text \<open>
  With identifiers as primary key, the step instance found for the next step order is a
  row of the table other than the acted one, and \<open>findUnique\<close> on its identifier
  returns it.
\<close>

lemma next_instance_other:
  assumes pk: "distinct (map psi_id (processStepInstances db))"
    and si: "processStepInstance_findUnique db stepId = Some si"
    and ws: "workflowStep_findUnique db (psi_workflowStepId si) = Some ws"
    and rows: "stepsOfProcess db processId = Returned rows"
    and r: "r \<in> set rows" and o: "stepOrder (snd r) \<noteq> stepOrder ws"
  shows "psi_id (fst r) \<noteq> stepId"
    and "processStepInstance_findUnique db (psi_id (fst r)) = Some (fst r)"
proof -
  from stepsOfProcess_set [OF rows r]
  have mem: "fst r \<in> set (processStepInstances db)"
    and w: "workflowStep_findUnique db (psi_workflowStepId (fst r)) = Some (snd r)"
    by auto
  from si have si': "psi_id si = stepId" "si \<in> set (processStepInstances db)"
    using find_Some_holds [of "\<lambda>s. psi_id s = stepId" "processStepInstances db" si]
    by (auto simp: processStepInstance_findUnique_def)
  show "processStepInstance_findUnique db (psi_id (fst r)) = Some (fst r)"
    using find_distinct_key [OF pk mem] by (simp add: processStepInstance_findUnique_def)
  show "psi_id (fst r) \<noteq> stepId"
  proof
    assume "psi_id (fst r) = stepId"
    with find_distinct_key [OF pk mem] find_distinct_key [OF pk si'(2)] si'(1)
    have "fst r = si" by simp
    with w ws o show False by simp
  qed
qed

section \<open>Approving a step\<close>

text \<open>
  A successful action on the step instance \<open>si\<close> with workflow step \<open>ws\<close> in process
  \<open>p\<close>: what the handler had loaded, the transaction it committed and the database it
  left.
\<close>

lemma actStep_success_loaded:
  assumes ok: "actStep now db session processId stepId body = (Success code v, db')"
    and s: "session = Some user" and b: "body = Some b"
    and a: "actionSchema b = Some (action, comments)"
    and si: "processStepInstance_findUnique db stepId = Some si"
    and ws: "workflowStep_findUnique db (psi_workflowStepId si) = Some ws"
    and p: "processInstance_findUnique db processId = Some p"
  obtains wt psteps L db1 where
    "workflowTemplate_findUnique db (pi_workflowTemplateId p) = Some wt"
    "stepsOfProcess db processId = Returned psteps"
    "L = \<lparr>ls_stepInstance = si, ls_workflowStep = ws, ls_process = p, ls_workflow = wt,
          ls_workflowSteps = stepsOfTemplate db (pi_workflowTemplateId p),
          ls_processSteps = psteps\<rparr>"
    "actStepTransaction now (su_id user) L processId stepId action comments db = Some db1"
    "db' = afterAction user L processId action comments db1"
    "psi_processInstanceId si = processId" "psi_status si = Step_PENDING"
    "stepType ws = APPROVAL"
proof -
  from ok obtain L db1 where
    L: "findStepInstance db stepId = Returned (Some L)"
      "psi_processInstanceId (ls_stepInstance L) = processId"
      "psi_status (ls_stepInstance L) = Step_PENDING"
      "stepType (ls_workflowStep L) = APPROVAL"
    and tx: "actStepTransaction now (su_id user) L processId stepId action comments db
               = Some db1"
    and db': "db' = afterAction user L processId action comments db1"
    using s b a by (auto elim!: actStep_success)
  from L(1) obtain si0 ws0 p0 wt psteps where
    f: "processStepInstance_findUnique db stepId = Some si0"
       "workflowStep_findUnique db (psi_workflowStepId si0) = Some ws0"
       "processInstance_findUnique db (psi_processInstanceId si0) = Some p0"
       "workflowTemplate_findUnique db (pi_workflowTemplateId p0) = Some wt"
       "stepsOfProcess db (pi_id p0) = Returned psteps"
    and L0: "L = \<lparr>ls_stepInstance = si0, ls_workflowStep = ws0, ls_process = p0,
                   ls_workflow = wt, ls_workflowSteps = stepsOfTemplate db (wt_id wt),
                   ls_processSteps = psteps\<rparr>"
    by (rule findStepInstance_Some)
  have si0: "si0 = si" using f(1) si by simp
  have ws0: "ws0 = ws" using f(2) ws si0 by simp
  have pid: "psi_processInstanceId si = processId" using L(2) L0 si0 by simp
  have p0: "p0 = p" using f(3) p si0 pid by simp
  have "pi_id p = processId"
    using p find_Some_holds [of "\<lambda>q. pi_id q = processId" "processInstances db" p]
    by (simp add: processInstance_findUnique_def)
  then have rows: "stepsOfProcess db processId = Returned psteps"
    using f(5) p0 by simp
  have wt: "workflowTemplate_findUnique db (pi_workflowTemplateId p) = Some wt"
    using f(4) p0 by simp
  have wtid: "wt_id wt = pi_workflowTemplateId p"
    using wt find_Some_holds [of "\<lambda>t. wt_id t = pi_workflowTemplateId p"
                                 "workflowTemplates db" wt]
    by (simp add: workflowTemplate_findUnique_def)
  have Leq: "L = \<lparr>ls_stepInstance = si, ls_workflowStep = ws, ls_process = p,
                   ls_workflow = wt,
                   ls_workflowSteps = stepsOfTemplate db (pi_workflowTemplateId p),
                   ls_processSteps = psteps\<rparr>"
    using L0 si0 ws0 p0 wtid by simp
  have st: "psi_status si = Step_PENDING" and ty: "stepType ws = APPROVAL"
    using L(3,4) Leq by simp_all
  show thesis
    by (rule that [OF wt rows Leq tx db' pid st ty])
qed

text \<open>What a committed approve transaction has done to the two tables.\<close>

lemma approve_effect:
  assumes ok: "actStep now db session processId stepId body = (Success code v, db')"
    and s: "session = Some user" and b: "body = Some b"
    and a: "actionSchema b = Some (approve, comments)"
    and si: "processStepInstance_findUnique db stepId = Some si"
    and ws: "workflowStep_findUnique db (psi_workflowStepId si) = Some ws"
    and p: "processInstance_findUnique db processId = Some p"
    and rows: "stepsOfProcess db processId = Returned psteps"
  obtains db0 db1 where
    "updateStepInstance stepId (actOn approve (su_id user) now comments) db = Some db0"
    "(case find (\<lambda>s. stepOrder s = stepOrder ws + 1)
             (stepsOfTemplate db (pi_workflowTemplateId p)) of
        Some nextWorkflowStep \<Rightarrow>
          (case find (\<lambda>s. stepOrder (snd s) = stepOrder ws + 1) psteps of
             Some nextStepInstance \<Rightarrow>
               if stepType nextWorkflowStep = NOTIFICATION then
                 (case updateStepInstance (psi_id (fst nextStepInstance))
                         (autoComplete now) db0 of
                    None \<Rightarrow> None
                  | Some db2 \<Rightarrow>
                      (case find (\<lambda>s. stepOrder s = stepOrder ws + 1 + 1)
                              (stepsOfTemplate db (pi_workflowTemplateId p)) of
                         None \<Rightarrow> setProcessStatus processId COMPLETED db2
                       | Some subsequentStep \<Rightarrow> Some db2))
               else setProcessStatus processId IN_PROGRESS db0
           | None \<Rightarrow> Some db0)
      | None \<Rightarrow> setProcessStatus processId COMPLETED db0) = Some db1"
    "processInstances db' = processInstances db1"
    "processStepInstances db' = processStepInstances db1"
proof -
  obtain wt psteps0 L db1 where
    "workflowTemplate_findUnique db (pi_workflowTemplateId p) = Some wt"
    and rows0: "stepsOfProcess db processId = Returned psteps0"
    and Leq: "L = \<lparr>ls_stepInstance = si, ls_workflowStep = ws, ls_process = p,
                   ls_workflow = wt,
                   ls_workflowSteps = stepsOfTemplate db (pi_workflowTemplateId p),
                   ls_processSteps = psteps0\<rparr>"
    and tx: "actStepTransaction now (su_id user) L processId stepId approve comments db
               = Some db1"
    and db': "db' = afterAction user L processId approve comments db1"
    and "psi_processInstanceId si = processId" and "psi_status si = Step_PENDING"
    and "stepType ws = APPROVAL"
    by (rule actStep_success_loaded [OF ok s b a si ws p])
  have sel: "ls_workflowStep L = ws" "ls_processSteps L = psteps"
    "ls_workflowSteps L = stepsOfTemplate db (pi_workflowTemplateId p)"
    using Leq rows rows0 by simp_all
  from tx obtain db0 where
    u: "updateStepInstance stepId (actOn approve (su_id user) now comments) db = Some db0"
    by (auto simp: actStepTransaction_def split: option.splits)
  show thesis
  proof (rule that [of db0 db1])
    show "updateStepInstance stepId (actOn approve (su_id user) now comments) db = Some db0"
      by (rule u)
    show "processInstances db' = processInstances db1"
      "processStepInstances db' = processStepInstances db1"
      using db' by (simp_all add: afterAction_tables)
    show "(case find (\<lambda>s. stepOrder s = stepOrder ws + 1)
             (stepsOfTemplate db (pi_workflowTemplateId p)) of
        Some nextWorkflowStep \<Rightarrow>
          (case find (\<lambda>s. stepOrder (snd s) = stepOrder ws + 1) psteps of
             Some nextStepInstance \<Rightarrow>
               if stepType nextWorkflowStep = NOTIFICATION then
                 (case updateStepInstance (psi_id (fst nextStepInstance))
                         (autoComplete now) db0 of
                    None \<Rightarrow> None
                  | Some db2 \<Rightarrow>
                      (case find (\<lambda>s. stepOrder s = stepOrder ws + 1 + 1)
                              (stepsOfTemplate db (pi_workflowTemplateId p)) of
                         None \<Rightarrow> setProcessStatus processId COMPLETED db2
                       | Some subsequentStep \<Rightarrow> Some db2))
               else setProcessStatus processId IN_PROGRESS db0
           | None \<Rightarrow> Some db0)
      | None \<Rightarrow> setProcessStatus processId COMPLETED db0) = Some db1"
      using tx u unfolding actStepTransaction_def Let_def sel by simp
  qed
qed

lemma processInstance_findUnique_cong:
  "processInstances db1 = processInstances db2 \<Longrightarrow>
     processInstance_findUnique db1 i = processInstance_findUnique db2 i"
  by (simp add: processInstance_findUnique_def)

lemma status_after_update:
  assumes u: "updateStepInstance i f db = Some db0"
    and t: "setProcessStatus processId st db0 = Some db1"
    and p: "processInstance_findUnique db processId = Some p"
  shows "processStepInstances db1 =
           map (\<lambda>s. if psi_id s = i then f s else s) (processStepInstances db)"
    and "processInstance_findUnique db1 processId = Some (p\<lparr>pi_status := st\<rparr>)"
proof -
  note u' = updateStepInstance_Some [OF u]
  note t' = setProcessStatus_Some [OF t]
  show "processStepInstances db1 =
           map (\<lambda>s. if psi_id s = i then f s else s) (processStepInstances db)"
    using u'(1) t'(1) by simp
  have "processInstance_findUnique db0 processId = Some p"
    using p u'(1) by (simp add: processInstance_findUnique_def)
  with setProcessStatus_find [OF t]
  show "processInstance_findUnique db1 processId = Some (p\<lparr>pi_status := st\<rparr>)"
    by auto
qed

text \<open>
  Claim C1. A successful approve of the pending APPROVAL step instance \<open>si\<close>, whose
  workflow step \<open>ws\<close> has step order \<open>n\<close>, in process \<open>p\<close> with template steps
  \<open>steps\<close> (identifiers of step instances being a primary key):

  \<^item> if the template has no step of order \<open>n + 1\<close>, the process status is set to
    COMPLETED, and only the acted step instance is rewritten;
  \<^item> if the step of order \<open>n + 1\<close> is a NOTIFICATION step and \<open>nsi\<close> is the process's
    step instance for it, then \<open>nsi\<close> is another row than the acted one and its row is
    rewritten with status COMPLETED and acted-at = now and nothing else (no actor is
    written: the actor column keeps its value, which is empty for a step instance that
    was created pending); the process status is set to COMPLETED when the template has no
    step of order \<open>n + 2\<close> and the process row is left as it was otherwise (so it stays
    IN_PROGRESS, the state every row of the transition table starts from); every
    other step instance, a second NOTIFICATION step's included, is unchanged;
  \<^item> if the step of order \<open>n + 1\<close> is a FORM or APPROVAL step and \<open>nsi\<close> is the process's
    step instance for it, the process status is set to IN_PROGRESS and the row of
    \<open>nsi\<close> is unchanged.

  The step of order \<open>n + 1\<close> is the one the handler finds in the template's ordered
  steps, and \<open>nsi\<close> the one it finds among the process's step instances; every
  process gets a step instance for each step of its template when it is created.
\<close>

theorem approve_transition:
  assumes ok: "actStep now db session processId stepId body = (Success code v, db')"
    and s: "session = Some user" and b: "body = Some b"
    and a: "actionSchema b = Some (approve, comments)"
    and si: "processStepInstance_findUnique db stepId = Some si"
    and ws: "workflowStep_findUnique db (psi_workflowStepId si) = Some ws"
    and p: "processInstance_findUnique db processId = Some p"
    and rows: "stepsOfProcess db processId = Returned psteps"
    and pk: "distinct (map psi_id (processStepInstances db))"
    and steps: "steps = stepsOfTemplate db (pi_workflowTemplateId p)"
    and n: "n = stepOrder ws"
  shows "((\<forall>s \<in> set steps. stepOrder s \<noteq> n + 1) \<longrightarrow>
            processStepInstances db' =
              map (\<lambda>s. if psi_id s = stepId then actOn approve (su_id user) now comments s
                        else s) (processStepInstances db)
          \<and> processInstance_findUnique db' processId = Some (p\<lparr>pi_status := COMPLETED\<rparr>))
       \<and> (\<forall>nws nsi nw.
            find (\<lambda>s. stepOrder s = n + 1) steps = Some nws \<and>
            find (\<lambda>r. stepOrder (snd r) = n + 1) psteps = Some (nsi, nw) \<and>
            stepType nws = NOTIFICATION \<longrightarrow>
              psi_id nsi \<noteq> stepId
            \<and> processStepInstance_findUnique db (psi_id nsi) = Some nsi
            \<and> processStepInstance_findUnique db' (psi_id nsi)
                 = Some (nsi\<lparr>psi_status := Step_COMPLETED, psi_actedAt := Some now\<rparr>)
            \<and> processStepInstances db' =
                 map (\<lambda>s. if psi_id s = stepId
                             then actOn approve (su_id user) now comments s
                           else if psi_id s = psi_id nsi
                             then s\<lparr>psi_status := Step_COMPLETED, psi_actedAt := Some now\<rparr>
                           else s) (processStepInstances db)
            \<and> processInstance_findUnique db' processId
                 = Some (if \<forall>s \<in> set steps. stepOrder s \<noteq> n + 2
                         then p\<lparr>pi_status := COMPLETED\<rparr> else p)
            \<and> (pi_status p = IN_PROGRESS \<and> (\<exists>s \<in> set steps. stepOrder s = n + 2) \<longrightarrow>
                 map_option pi_status (processInstance_findUnique db' processId)
                   = Some IN_PROGRESS))
       \<and> (\<forall>nws nsi nw.
            find (\<lambda>s. stepOrder s = n + 1) steps = Some nws \<and>
            find (\<lambda>r. stepOrder (snd r) = n + 1) psteps = Some (nsi, nw) \<and>
            stepType nws \<noteq> NOTIFICATION \<longrightarrow>
              processStepInstances db' =
                 map (\<lambda>s. if psi_id s = stepId
                             then actOn approve (su_id user) now comments s
                           else s) (processStepInstances db)
            \<and> processStepInstance_findUnique db (psi_id nsi) = Some nsi
            \<and> processStepInstance_findUnique db' (psi_id nsi) = Some nsi
            \<and> processInstance_findUnique db' processId
                 = Some (p\<lparr>pi_status := IN_PROGRESS\<rparr>))"
proof -
  let ?act = "actOn approve (su_id user) now comments"
  from approve_effect [OF ok s b a si ws p rows]
  obtain db0 db1 where
    u: "updateStepInstance stepId ?act db = Some db0"
    and c: "(case find (\<lambda>s. stepOrder s = n + 1) steps of
        Some nextWorkflowStep \<Rightarrow>
          (case find (\<lambda>s. stepOrder (snd s) = n + 1) psteps of
             Some nextStepInstance \<Rightarrow>
               if stepType nextWorkflowStep = NOTIFICATION then
                 (case updateStepInstance (psi_id (fst nextStepInstance))
                         (autoComplete now) db0 of
                    None \<Rightarrow> None
                  | Some db2 \<Rightarrow>
                      (case find (\<lambda>s. stepOrder s = n + 1 + 1) steps of
                         None \<Rightarrow> setProcessStatus processId COMPLETED db2
                       | Some subsequentStep \<Rightarrow> Some db2))
               else setProcessStatus processId IN_PROGRESS db0
           | None \<Rightarrow> Some db0)
      | None \<Rightarrow> setProcessStatus processId COMPLETED db0) = Some db1"
    and pi: "processInstances db' = processInstances db1"
    and ps: "processStepInstances db' = processStepInstances db1"
    unfolding steps n by blast
  note pf = processInstance_findUnique_cong [OF pi]
  note u' = updateStepInstance_Some [OF u]
  have A: "processStepInstances db' =
             map (\<lambda>s. if psi_id s = stepId then ?act s else s) (processStepInstances db)
           \<and> processInstance_findUnique db' processId = Some (p\<lparr>pi_status := COMPLETED\<rparr>)"
    if "\<forall>s \<in> set steps. stepOrder s \<noteq> n + 1"
  proof -
    from that have "find (\<lambda>s. stepOrder s = n + 1) steps = None"
      by (simp add: find_None_iff)
    with c have "setProcessStatus processId COMPLETED db0 = Some db1"
      by simp
    from status_after_update [OF u this p] show ?thesis
      by (simp add: ps pf)
  qed
  have other: "psi_id nsi \<noteq> stepId"
      "processStepInstance_findUnique db (psi_id nsi) = Some nsi"
    if "find (\<lambda>r. stepOrder (snd r) = n + 1) psteps = Some (nsi, nw)" for nsi nw
  proof -
    from find_Some_holds [OF that]
    have r: "(nsi, nw) \<in> set psteps" and o: "stepOrder (snd (nsi, nw)) \<noteq> stepOrder ws"
      by (simp_all add: n)
    from next_instance_other [OF pk si ws rows r o]
    show "psi_id nsi \<noteq> stepId" "processStepInstance_findUnique db (psi_id nsi) = Some nsi"
      by simp_all
  qed
  have B: "psi_id nsi \<noteq> stepId
         \<and> processStepInstance_findUnique db (psi_id nsi) = Some nsi
         \<and> processStepInstance_findUnique db' (psi_id nsi)
              = Some (nsi\<lparr>psi_status := Step_COMPLETED, psi_actedAt := Some now\<rparr>)
         \<and> processStepInstances db' =
              map (\<lambda>s. if psi_id s = stepId then ?act s
                        else if psi_id s = psi_id nsi
                          then s\<lparr>psi_status := Step_COMPLETED, psi_actedAt := Some now\<rparr>
                        else s) (processStepInstances db)
         \<and> processInstance_findUnique db' processId
              = Some (if \<forall>s \<in> set steps. stepOrder s \<noteq> n + 2
                      then p\<lparr>pi_status := COMPLETED\<rparr> else p)
         \<and> (pi_status p = IN_PROGRESS \<and> (\<exists>s \<in> set steps. stepOrder s = n + 2) \<longrightarrow>
                 map_option pi_status (processInstance_findUnique db' processId)
                   = Some IN_PROGRESS)"
    if f1: "find (\<lambda>s. stepOrder s = n + 1) steps = Some nws"
      and f2: "find (\<lambda>r. stepOrder (snd r) = n + 1) psteps = Some (nsi, nw)"
      and ty: "stepType nws = NOTIFICATION" for nws nsi nw
  proof -
    note o = other [OF f2]
    from c f1 f2 ty obtain db2 where
      u2: "updateStepInstance (psi_id nsi) (autoComplete now) db0 = Some db2"
      and c2: "(case find (\<lambda>s. stepOrder s = n + 1 + 1) steps of
                  None \<Rightarrow> setProcessStatus processId COMPLETED db2
                | Some subsequentStep \<Rightarrow> Some db2) = Some db1"
      by (auto split: option.splits)
    note u2' = updateStepInstance_Some [OF u2]
    have p2: "processInstance_findUnique db2 processId = Some p"
      using p u'(1) u2'(1) by (simp add: processInstance_findUnique_def)
    have tbl2: "processStepInstances db2 =
              map (\<lambda>s. if psi_id s = stepId then ?act s
                        else if psi_id s = psi_id nsi
                          then s\<lparr>psi_status := Step_COMPLETED, psi_actedAt := Some now\<rparr>
                        else s) (processStepInstances db)"
      using u'(1) u2'(1) o(1) by (auto simp: actOn_def autoComplete_def)
    have tbl1: "processStepInstances db1 = processStepInstances db2"
      and st1: "processInstance_findUnique db1 processId
              = Some (if \<forall>s \<in> set steps. stepOrder s \<noteq> n + 2
                      then p\<lparr>pi_status := COMPLETED\<rparr> else p)"
    proof -
      show "processStepInstances db1 = processStepInstances db2"
        using c2 by (auto split: option.splits dest: setProcessStatus_Some(1))
      show "processInstance_findUnique db1 processId
              = Some (if \<forall>s \<in> set steps. stepOrder s \<noteq> n + 2
                      then p\<lparr>pi_status := COMPLETED\<rparr> else p)"
      proof (cases "find (\<lambda>s. stepOrder s = n + 1 + 1) steps")
        case None
        with c2 have t: "setProcessStatus processId COMPLETED db2 = Some db1"
          by simp
        from None have "\<forall>s \<in> set steps. stepOrder s \<noteq> n + 2"
          by (auto simp: find_None_iff)
        with setProcessStatus_find [OF t] p2 show ?thesis
          by auto
      next
        case (Some x)
        with c2 have "db1 = db2" by simp
        moreover from find_Some_holds [OF Some]
        have "stepOrder x = n + 2" and "x \<in> set steps"
          by simp_all
        then have "\<not> (\<forall>s \<in> set steps. stepOrder s \<noteq> n + 2)"
          by blast
        ultimately show ?thesis
          using p2 by auto
      qed
    qed
    have "processStepInstance_findUnique db' (psi_id nsi)
            = Some (nsi\<lparr>psi_status := Step_COMPLETED, psi_actedAt := Some now\<rparr>)"
      using o
      by (simp add: ps processStepInstance_findUnique_def tbl1 tbl2 actOn_def
            find_map_key [where key = psi_id])
    then show ?thesis
      using o by (simp add: ps pf tbl1 tbl2 st1)
  qed
  have C: "processStepInstances db' =
              map (\<lambda>s. if psi_id s = stepId then ?act s else s) (processStepInstances db)
         \<and> processStepInstance_findUnique db (psi_id nsi) = Some nsi
         \<and> processStepInstance_findUnique db' (psi_id nsi) = Some nsi
         \<and> processInstance_findUnique db' processId = Some (p\<lparr>pi_status := IN_PROGRESS\<rparr>)"
    if f1: "find (\<lambda>s. stepOrder s = n + 1) steps = Some nws"
      and f2: "find (\<lambda>r. stepOrder (snd r) = n + 1) psteps = Some (nsi, nw)"
      and ty: "stepType nws \<noteq> NOTIFICATION" for nws nsi nw
  proof -
    note o = other [OF f2]
    from c f1 f2 ty have t: "setProcessStatus processId IN_PROGRESS db0 = Some db1"
      by simp
    note r = status_after_update [OF u t p]
    have "processStepInstance_findUnique db' (psi_id nsi) = Some nsi"
      using o
      by (simp add: ps processStepInstance_findUnique_def r(1) actOn_def
            find_map_key [where key = psi_id])
    then show ?thesis
      using o r by (simp add: ps pf)
  qed
  from A B C show ?thesis
    by blast
qed

theorem approve_transition_witness:
  "processStepInstance_findUnique
     (snd (actStep 9 running (Some approver) ''p1'' ''s2'' (Some (actionBody ''approve''))))
     ''s3''
     = Some \<lparr>psi_id = ''s3'', psi_processInstanceId = ''p1'', psi_workflowStepId = ''w3'',
              psi_status = Step_COMPLETED, psi_actedById = None, psi_actedAt = Some 9,
              psi_comments = None\<rparr>
   \<and> processInstance_findUnique
     (snd (actStep 9 running (Some approver) ''p1'' ''s2'' (Some (actionBody ''approve''))))
     ''p1''
     = Some \<lparr>pi_id = ''p1'', pi_workflowTemplateId = ''t1'', pi_createdById = ''u3'',
              pi_formData = JObj [], pi_status = COMPLETED\<rparr>"
proof -
  let ?r = "actStep 9 running (Some approver) ''p1'' ''s2'' (Some (actionBody ''approve''))"
  have "fst ?r = Success 200
          (Some \<lparr>pi_id = ''p1'', pi_workflowTemplateId = ''t1'', pi_createdById = ''u3'',
                  pi_formData = JObj [], pi_status = COMPLETED\<rparr>)"
    by (simp add: actStep_eval)
  then have ok: "?r = (Success 200
          (Some \<lparr>pi_id = ''p1'', pi_workflowTemplateId = ''t1'', pi_createdById = ''u3'',
                  pi_formData = JObj [], pi_status = COMPLETED\<rparr>), snd ?r)"
    by (simp add: prod_eq_iff)
  have a: "actionSchema (actionBody ''approve'') = Some (approve, None)"
    by (simp add: actionSchema_def actionBody_def actionOfString_def)
  have si: "processStepInstance_findUnique running ''s2''
      = Some \<lparr>psi_id = ''s2'', psi_processInstanceId = ''p1'', psi_workflowStepId = ''w2'',
          psi_status = Step_PENDING, psi_actedById = None, psi_actedAt = None,
          psi_comments = None\<rparr>"
    by (simp add: processStepInstance_findUnique_def running_def)
  have ws: "workflowStep_findUnique running ''w2''
      = Some \<lparr>ws_id = ''w2'', ws_workflowTemplateId = ''t1'', stepOrder = 2,
                stepType = APPROVAL, ws_name = ''Manager''\<rparr>"
    by (simp add: workflowStep_findUnique_def running_def demo_def)
  have p: "processInstance_findUnique running ''p1''
      = Some \<lparr>pi_id = ''p1'', pi_workflowTemplateId = ''t1'', pi_createdById = ''u3'',
          pi_formData = JObj [], pi_status = IN_PROGRESS\<rparr>"
    by (simp add: processInstance_findUnique_def running_def)
  have rows: "stepsOfProcess running ''p1'' = Returned
       [(\<lparr>psi_id = ''s1'', psi_processInstanceId = ''p1'', psi_workflowStepId = ''w1'',
          psi_status = Step_COMPLETED, psi_actedById = Some ''u3'', psi_actedAt = Some 5,
          psi_comments = None\<rparr>,
         \<lparr>ws_id = ''w1'', ws_workflowTemplateId = ''t1'', stepOrder = 1,
                stepType = FORM, ws_name = ''Submit''\<rparr>),
        (\<lparr>psi_id = ''s2'', psi_processInstanceId = ''p1'', psi_workflowStepId = ''w2'',
          psi_status = Step_PENDING, psi_actedById = None, psi_actedAt = None,
          psi_comments = None\<rparr>,
         \<lparr>ws_id = ''w2'', ws_workflowTemplateId = ''t1'', stepOrder = 2,
                stepType = APPROVAL, ws_name = ''Manager''\<rparr>),
        (\<lparr>psi_id = ''s3'', psi_processInstanceId = ''p1'', psi_workflowStepId = ''w3'',
          psi_status = Step_PENDING, psi_actedById = None, psi_actedAt = None,
          psi_comments = None\<rparr>,
         \<lparr>ws_id = ''w3'', ws_workflowTemplateId = ''t1'', stepOrder = 3,
                stepType = NOTIFICATION, ws_name = ''Tell''\<rparr>)]"
    by (simp add: stepsOfProcess_def workflowStep_findUnique_def running_def demo_def)
  have pk: "distinct (map psi_id (processStepInstances running))"
    by (simp add: running_def)
  have st: "stepsOfTemplate running ''t1'' =
       [\<lparr>ws_id = ''w1'', ws_workflowTemplateId = ''t1'', stepOrder = 1,
                stepType = FORM, ws_name = ''Submit''\<rparr>,
        \<lparr>ws_id = ''w2'', ws_workflowTemplateId = ''t1'', stepOrder = 2,
                stepType = APPROVAL, ws_name = ''Manager''\<rparr>,
        \<lparr>ws_id = ''w3'', ws_workflowTemplateId = ''t1'', stepOrder = 3,
                stepType = NOTIFICATION, ws_name = ''Tell''\<rparr>]"
    by (simp add: stepsOfTemplate_def running_def demo_def)
  from approve_transition [OF ok refl refl a si, simplified, OF ws p rows pk refl refl]
  show ?thesis
    by (simp add: st)
qed

section \<open>Rejecting a step and requesting changes\<close>

text \<open>
  Claim C2. After a successful reject of the step instance \<open>stepId\<close>: that step
  instance was pending, and its row is now REJECTED, with the caller as actor, acted-at =
  now and the comments of the request (a request without comments leaves the comments
  column as it was); the process status is REJECTED; and the step instance table is the
  old one with that single row rewritten, so no other step instance is touched, however
  many steps follow.
\<close>

theorem reject_is_terminal:
  assumes "actStep now db session processId stepId body = (Success code v, db')"
    and "session = Some user" and "body = Some b"
    and "actionSchema b = Some (reject, comments)"
  shows "(\<exists>si. processStepInstance_findUnique db stepId = Some si
            \<and> psi_status si = Step_PENDING
            \<and> processStepInstance_findUnique db' stepId =
                 Some (si\<lparr>psi_status := Step_REJECTED,
                          psi_actedById := Some (su_id user),
                          psi_actedAt := Some now,
                          psi_comments := (case comments of None \<Rightarrow> psi_comments si
                                           | Some c \<Rightarrow> Some c)\<rparr>))
       \<and> (\<exists>p. processInstance_findUnique db processId = Some p
            \<and> processInstance_findUnique db' processId = Some (p\<lparr>pi_status := REJECTED\<rparr>))
       \<and> processStepInstances db' =
            map (\<lambda>s. if psi_id s = stepId
                      then s\<lparr>psi_status := Step_REJECTED,
                             psi_actedById := Some (su_id user),
                             psi_actedAt := Some now,
                             psi_comments := (case comments of None \<Rightarrow> psi_comments s
                                              | Some c \<Rightarrow> Some c)\<rparr>
                      else s)
                (processStepInstances db)"
  using decline_effect [OF assms]
  by (auto simp: actOn_def)

theorem reject_is_terminal_witness:
  "processStepInstances
     (snd (actStep 9 running (Some approver) ''p2'' ''s4''
             (Some (commentedBody ''reject'' ''no''))))
     = (processStepInstances running)
         [3 := \<lparr>psi_id = ''s4'', psi_processInstanceId = ''p2'', psi_workflowStepId = ''w4'',
                 psi_status = Step_REJECTED, psi_actedById = Some ''u2'',
                 psi_actedAt = Some 9, psi_comments = Some ''no''\<rparr>]
   \<and> processInstance_findUnique
       (snd (actStep 9 running (Some approver) ''p2'' ''s4''
               (Some (commentedBody ''reject'' ''no'')))) ''p2''
     = Some \<lparr>pi_id = ''p2'', pi_workflowTemplateId = ''t2'', pi_createdById = ''u3'',
              pi_formData = JObj [], pi_status = REJECTED\<rparr>"
proof -
  let ?r = "actStep 9 running (Some approver) ''p2'' ''s4''
              (Some (commentedBody ''reject'' ''no''))"
  have "fst ?r = Success 200
          (Some \<lparr>pi_id = ''p2'', pi_workflowTemplateId = ''t2'', pi_createdById = ''u3'',
                  pi_formData = JObj [], pi_status = REJECTED\<rparr>)"
    by (simp add: actStep_eval)
  then have ok: "?r = (Success 200
          (Some \<lparr>pi_id = ''p2'', pi_workflowTemplateId = ''t2'', pi_createdById = ''u3'',
                  pi_formData = JObj [], pi_status = REJECTED\<rparr>), snd ?r)"
    by (simp add: prod_eq_iff)
  have a: "actionSchema (commentedBody ''reject'' ''no'') = Some (reject, Some ''no'')"
    by (simp add: actionSchema_def commentedBody_def actionOfString_def)
  from reject_is_terminal [OF ok refl refl a]
  show ?thesis
    by (simp add: processStepInstance_findUnique_def processInstance_findUnique_def
          running_def approver_def)
qed

text \<open>
  Claim C8. After a successful request for changes on the step instance \<open>stepId\<close>:
  that step instance was pending, and its row is now REJECTED (the status the update
  writes for every action other than approve), with the caller as actor, acted-at = now
  and the comments of the request (a request without comments leaves the comments column
  as it was); the process status is CHANGES_REQUESTED; and no other row of the step
  instance table is modified.
\<close>

theorem request_changes_effect:
  assumes "actStep now db session processId stepId body = (Success code v, db')"
    and "session = Some user" and "body = Some b"
    and "actionSchema b = Some (request_changes, comments)"
  shows "(\<exists>si. processStepInstance_findUnique db stepId = Some si
            \<and> psi_status si = Step_PENDING
            \<and> processStepInstance_findUnique db' stepId =
                 Some (si\<lparr>psi_status := Step_REJECTED,
                          psi_actedById := Some (su_id user),
                          psi_actedAt := Some now,
                          psi_comments := (case comments of None \<Rightarrow> psi_comments si
                                           | Some c \<Rightarrow> Some c)\<rparr>))
       \<and> (\<exists>p. processInstance_findUnique db processId = Some p
            \<and> processInstance_findUnique db' processId
                 = Some (p\<lparr>pi_status := CHANGES_REQUESTED\<rparr>))
       \<and> processStepInstances db' =
            map (\<lambda>s. if psi_id s = stepId
                      then s\<lparr>psi_status := Step_REJECTED,
                             psi_actedById := Some (su_id user),
                             psi_actedAt := Some now,
                             psi_comments := (case comments of None \<Rightarrow> psi_comments s
                                              | Some c \<Rightarrow> Some c)\<rparr>
                      else s)
                (processStepInstances db)"
  using decline_effect [OF assms]
  by (auto simp: actOn_def)

theorem request_changes_effect_witness:
  "processStepInstances
     (snd (actStep 9 running (Some admin) ''p1'' ''s2''
             (Some (commentedBody ''request_changes'' ''fix''))))
     = (processStepInstances running)
         [1 := \<lparr>psi_id = ''s2'', psi_processInstanceId = ''p1'', psi_workflowStepId = ''w2'',
                 psi_status = Step_REJECTED, psi_actedById = Some ''u1'',
                 psi_actedAt = Some 9, psi_comments = Some ''fix''\<rparr>]
   \<and> processInstance_findUnique
       (snd (actStep 9 running (Some admin) ''p1'' ''s2''
               (Some (commentedBody ''request_changes'' ''fix'')))) ''p1''
     = Some \<lparr>pi_id = ''p1'', pi_workflowTemplateId = ''t1'', pi_createdById = ''u3'',
              pi_formData = JObj [], pi_status = CHANGES_REQUESTED\<rparr>"
proof -
  let ?r = "actStep 9 running (Some admin) ''p1'' ''s2''
              (Some (commentedBody ''request_changes'' ''fix''))"
  have "fst ?r = Success 200
          (Some \<lparr>pi_id = ''p1'', pi_workflowTemplateId = ''t1'', pi_createdById = ''u3'',
                  pi_formData = JObj [], pi_status = CHANGES_REQUESTED\<rparr>)"
    by (simp add: actStep_eval)
  then have ok: "?r = (Success 200
          (Some \<lparr>pi_id = ''p1'', pi_workflowTemplateId = ''t1'', pi_createdById = ''u3'',
                  pi_formData = JObj [], pi_status = CHANGES_REQUESTED\<rparr>), snd ?r)"
    by (simp add: prod_eq_iff)
  have a: "actionSchema (commentedBody ''request_changes'' ''fix'')
             = Some (request_changes, Some ''fix'')"
    by (simp add: actionSchema_def commentedBody_def actionOfString_def)
  from request_changes_effect [OF ok refl refl a]
  show ?thesis
    by (simp add: processStepInstance_findUnique_def processInstance_findUnique_def
          running_def admin_def)
qed

section \<open>Notifying the approvers after an approve\<close>

text \<open>
  Claim C10. After a successful approve of the step instance \<open>si\<close>, whose workflow step
  \<open>ws\<close> has step order \<open>n\<close>, the notifications written are one for the creator of the
  process and then, exactly when the template has an APPROVAL step of order \<open>n + 1\<close>, one
  ACTION_REQUIRED notification for every user with the ADMIN or APPROVER role. In
  particular, with step orders unique in the template, when the step of order \<open>n + 1\<close>
  is a NOTIFICATION step the approvers get nothing, whatever the step of order \<open>n + 2\<close>
  is.
\<close>

theorem approvers_notified_iff_next_is_approval:
  assumes ok: "actStep now db session processId stepId body = (Success code v, db')"
    and s: "session = Some user" and b: "body = Some b"
    and a: "actionSchema b = Some (approve, comments)"
    and si: "processStepInstance_findUnique db stepId = Some si"
    and ws: "workflowStep_findUnique db (psi_workflowStepId si) = Some ws"
    and p: "processInstance_findUnique db processId = Some p"
    and wt: "workflowTemplate_findUnique db (pi_workflowTemplateId p) = Some wt"
    and steps: "steps = stepsOfTemplate db (pi_workflowTemplateId p)"
    and n: "n = stepOrder ws"
    and pool: "pool = map (\<lambda>u. \<lparr>n_userId = user_id u, n_processInstanceId = Some processId,
                                  n_message = ''New approval request: '' @ wt_name wt,
                                  n_type = ACTION_REQUIRED, n_isRead = False\<rparr>)
                         (approvers db)"
  shows "\<exists>note. n_userId note = pi_createdById p \<and> n_type note = UPDATE
         \<and> ((\<exists>s \<in> set steps. stepOrder s = n + 1 \<and> stepType s = APPROVAL) \<longrightarrow>
               notifications db' = notifications db @ [note] @ pool)
         \<and> (\<not> (\<exists>s \<in> set steps. stepOrder s = n + 1 \<and> stepType s = APPROVAL) \<longrightarrow>
               notifications db' = notifications db @ [note])
         \<and> (\<forall>nws. distinct (map stepOrder steps) \<and>
                  find (\<lambda>s. stepOrder s = n + 1) steps = Some nws \<and>
                  stepType nws = NOTIFICATION \<longrightarrow>
               notifications db' = notifications db @ [note])"
proof -
  obtain wt0 psteps L db1 where
    wt0: "workflowTemplate_findUnique db (pi_workflowTemplateId p) = Some wt0"
    and "stepsOfProcess db processId = Returned psteps"
    and Leq: "L = \<lparr>ls_stepInstance = si, ls_workflowStep = ws, ls_process = p,
                   ls_workflow = wt0,
                   ls_workflowSteps = stepsOfTemplate db (pi_workflowTemplateId p),
                   ls_processSteps = psteps\<rparr>"
    and tx: "actStepTransaction now (su_id user) L processId stepId approve comments db
               = Some db1"
    and db': "db' = afterAction user L processId approve comments db1"
    and "psi_processInstanceId si = processId" and "psi_status si = Step_PENDING"
    and "stepType ws = APPROVAL"
    by (rule actStep_success_loaded [OF ok s b a si ws p])
  have wt0: "wt0 = wt" using wt wt0 by simp
  have frame: "notifications db1 = notifications db" "users db1 = users db"
    using tx
    by (auto simp: actStepTransaction_def Let_def setProcessStatus_def
          updateProcessInstance_def updateStepInstance_def
          split: option.splits if_splits)
  have cond: "nextIsApproval L \<longleftrightarrow>
                (\<exists>s \<in> set steps. stepOrder s = n + 1 \<and> stepType s = APPROVAL)"
    by (auto simp: nextIsApproval_def Leq steps n find_None_iff)
  let ?note = "\<lparr>n_userId = pi_createdById p, n_processInstanceId = Some processId,
       n_message = actionMessages approved (wt_name wt)
                     (map_option user_name (user_findUnique db1 (su_id user))),
       n_type = UPDATE, n_isRead = False\<rparr>"
  have all: "notifications db' = notifications db @ [?note] @
               (if \<exists>s \<in> set steps. stepOrder s = n + 1 \<and> stepType s = APPROVAL
                then pool else [])"
    unfolding db' afterAction_notifications cond
    by (auto simp: frame Leq wt0 pool approvers_def notificationAction_def)
  have unique: "\<not> (\<exists>s \<in> set steps. stepOrder s = n + 1 \<and> stepType s = APPROVAL)"
    if d: "distinct (map stepOrder steps)"
      and f: "find (\<lambda>s. stepOrder s = n + 1) steps = Some nws"
      and t: "stepType nws = NOTIFICATION" for nws
  proof
    assume "\<exists>s \<in> set steps. stepOrder s = n + 1 \<and> stepType s = APPROVAL"
    then obtain x where x: "x \<in> set steps" "stepOrder x = n + 1" "stepType x = APPROVAL"
      by blast
    from find_Some_holds [OF f] have "nws \<in> set steps" "stepOrder nws = n + 1"
      by simp_all
    with x d have "x = nws"
      by (auto simp: distinct_map inj_on_def)
    with x t show False by simp
  qed
  show ?thesis
    by (rule exI [of _ ?note]) (use all unique in auto)
qed

theorem approvers_notified_iff_next_is_approval_witness:
  "map n_userId (notifications
     (snd (actStep 9 running (Some approver) ''p2'' ''s4'' (Some (actionBody ''approve'')))))
     = [''u3'', ''u1'', ''u2'']
   \<and> map n_userId (notifications
     (snd (actStep 9 running (Some approver) ''p1'' ''s2'' (Some (actionBody ''approve'')))))
     = [''u3'']"
proof -
  let ?r2 = "actStep 9 running (Some approver) ''p2'' ''s4'' (Some (actionBody ''approve''))"
  let ?r1 = "actStep 9 running (Some approver) ''p1'' ''s2'' (Some (actionBody ''approve''))"
  have a: "actionSchema (actionBody ''approve'') = Some (approve, None)"
    by (simp add: actionSchema_def actionBody_def actionOfString_def)
  have "fst ?r2 = Success 200
          (Some \<lparr>pi_id = ''p2'', pi_workflowTemplateId = ''t2'', pi_createdById = ''u3'',
                  pi_formData = JObj [], pi_status = IN_PROGRESS\<rparr>)"
    by (simp add: actStep_eval)
  then have ok2: "?r2 = (Success 200
          (Some \<lparr>pi_id = ''p2'', pi_workflowTemplateId = ''t2'', pi_createdById = ''u3'',
                  pi_formData = JObj [], pi_status = IN_PROGRESS\<rparr>), snd ?r2)"
    by (simp add: prod_eq_iff)
  have "fst ?r1 = Success 200
          (Some \<lparr>pi_id = ''p1'', pi_workflowTemplateId = ''t1'', pi_createdById = ''u3'',
                  pi_formData = JObj [], pi_status = COMPLETED\<rparr>)"
    by (simp add: actStep_eval)
  then have ok1: "?r1 = (Success 200
          (Some \<lparr>pi_id = ''p1'', pi_workflowTemplateId = ''t1'', pi_createdById = ''u3'',
                  pi_formData = JObj [], pi_status = COMPLETED\<rparr>), snd ?r1)"
    by (simp add: prod_eq_iff)
  have s4: "processStepInstance_findUnique running ''s4''
      = Some \<lparr>psi_id = ''s4'', psi_processInstanceId = ''p2'', psi_workflowStepId = ''w4'',
          psi_status = Step_PENDING, psi_actedById = None, psi_actedAt = None,
          psi_comments = None\<rparr>"
    by (simp add: processStepInstance_findUnique_def running_def)
  have s2: "processStepInstance_findUnique running ''s2''
      = Some \<lparr>psi_id = ''s2'', psi_processInstanceId = ''p1'', psi_workflowStepId = ''w2'',
          psi_status = Step_PENDING, psi_actedById = None, psi_actedAt = None,
          psi_comments = None\<rparr>"
    by (simp add: processStepInstance_findUnique_def running_def)
  have w4: "workflowStep_findUnique running ''w4''
      = Some \<lparr>ws_id = ''w4'', ws_workflowTemplateId = ''t2'', stepOrder = 1,
                stepType = APPROVAL, ws_name = ''First''\<rparr>"
    by (simp add: workflowStep_findUnique_def running_def demo_def)
  have w2: "workflowStep_findUnique running ''w2''
      = Some \<lparr>ws_id = ''w2'', ws_workflowTemplateId = ''t1'', stepOrder = 2,
                stepType = APPROVAL, ws_name = ''Manager''\<rparr>"
    by (simp add: workflowStep_findUnique_def running_def demo_def)
  have p2: "processInstance_findUnique running ''p2''
      = Some \<lparr>pi_id = ''p2'', pi_workflowTemplateId = ''t2'', pi_createdById = ''u3'',
          pi_formData = JObj [], pi_status = IN_PROGRESS\<rparr>"
    by (simp add: processInstance_findUnique_def running_def)
  have p1: "processInstance_findUnique running ''p1''
      = Some \<lparr>pi_id = ''p1'', pi_workflowTemplateId = ''t1'', pi_createdById = ''u3'',
          pi_formData = JObj [], pi_status = IN_PROGRESS\<rparr>"
    by (simp add: processInstance_findUnique_def running_def)
  have t2: "workflowTemplate_findUnique running ''t2''
      = Some \<lparr>wt_id = ''t2'', wt_name = ''Spend'', wt_status = ACTIVE\<rparr>"
    by (simp add: workflowTemplate_findUnique_def running_def demo_def)
  have t1: "workflowTemplate_findUnique running ''t1''
      = Some \<lparr>wt_id = ''t1'', wt_name = ''Leave'', wt_status = ACTIVE\<rparr>"
    by (simp add: workflowTemplate_findUnique_def running_def demo_def)
  have st2: "stepsOfTemplate running ''t2'' =
       [\<lparr>ws_id = ''w4'', ws_workflowTemplateId = ''t2'', stepOrder = 1,
                stepType = APPROVAL, ws_name = ''First''\<rparr>,
        \<lparr>ws_id = ''w5'', ws_workflowTemplateId = ''t2'', stepOrder = 2,
                stepType = APPROVAL, ws_name = ''Second''\<rparr>]"
    by (simp add: stepsOfTemplate_def running_def demo_def)
  have st1: "stepsOfTemplate running ''t1'' =
       [\<lparr>ws_id = ''w1'', ws_workflowTemplateId = ''t1'', stepOrder = 1,
                stepType = FORM, ws_name = ''Submit''\<rparr>,
        \<lparr>ws_id = ''w2'', ws_workflowTemplateId = ''t1'', stepOrder = 2,
                stepType = APPROVAL, ws_name = ''Manager''\<rparr>,
        \<lparr>ws_id = ''w3'', ws_workflowTemplateId = ''t1'', stepOrder = 3,
                stepType = NOTIFICATION, ws_name = ''Tell''\<rparr>]"
    by (simp add: stepsOfTemplate_def running_def demo_def)
  have ap: "map user_id (approvers running) = [''u1'', ''u2'']"
    and no: "notifications running = []"
    by (simp_all add: approvers_def running_def demo_def)
  from approvers_notified_iff_next_is_approval
         [OF ok2 refl refl a s4, simplified, OF w4 p2, simplified, OF t2 refl refl refl]
  have "map n_userId (notifications (snd ?r2)) = [''u3'', ''u1'', ''u2'']"
    by (auto simp: st2 ap no comp_def)
  moreover
  from approvers_notified_iff_next_is_approval
         [OF ok1 refl refl a s2, simplified, OF w2 p1, simplified, OF t1 refl refl refl]
  have "map n_userId (notifications (snd ?r1)) = [''u3'']"
    by (auto simp: st1 no)
  ultimately show ?thesis
    by simp
qed

section \<open>No ordering among the steps of a process\<close>




section \<open>The order of the checks of a step action\<close>

text \<open>
  Claim C3 puts the caller's role last, so that a caller without the elevated role who
  names a step instance that does not exist would be told that the step was not found.
  The handler checks the role first: the requester of the example, whose role is USER,
  asks for a step instance that is not in the table and is answered 403 (forbidden),
  not 404 (not found).
\<close>

theorem role_is_checked_before_existence:
  "processStepInstance_findUnique running ''s9'' = None
   \<and> su_role requester \<noteq> ADMIN \<and> su_role requester \<noteq> APPROVER
   \<and> actStep 9 running (Some requester) ''p1'' ''s9'' (Some (actionBody ''approve''))
       = (Failure 403 ''Forbidden'', running)
   \<and> fst (actStep 9 running (Some requester) ''p1'' ''s9'' (Some (actionBody ''approve'')))
       \<noteq> Failure 404 ''Step not found''"
  by (simp add: actStep_def requester_def processStepInstance_findUnique_def running_def)

text \<open>
  Claim C3, amended. For an authenticated caller the checks run in this order, each
  answering with its own error and returning the database unchanged: first the
  caller's elevated role (403, forbidden), whatever else the request holds; then, for a
  well-formed request, the existence of the step instance (404, not found); then, the
  step instance and what it refers to being loaded, that it belongs to the process of
  the path (400); then that its status is PENDING (400); then that its workflow step is
  an APPROVAL step (400).
\<close>

theorem actStep_precondition_order:
  assumes "session = Some user"
  shows "(\<not> (su_role user = ADMIN \<or> su_role user = APPROVER) \<longrightarrow>
            actStep now db session processId stepId body = (Failure 403 ''Forbidden'', db))
       \<and> ((su_role user = ADMIN \<or> su_role user = APPROVER) \<and> body = Some b \<and>
           actionSchema b = Some (action, comments) \<longrightarrow>
            (processStepInstance_findUnique db stepId = None \<longrightarrow>
               actStep now db session processId stepId body
                 = (Failure 404 ''Step not found'', db))
          \<and> (\<forall>si ws. processStepInstance_findUnique db stepId = Some si \<and>
                      workflowStep_findUnique db (psi_workflowStepId si) = Some ws \<and>
                      findStepInstance db stepId \<noteq> Thrown \<longrightarrow>
                (psi_processInstanceId si \<noteq> processId \<longrightarrow>
                   actStep now db session processId stepId body
                     = (Failure 400 ''Step does not belong to this process'', db))
              \<and> (psi_processInstanceId si = processId \<and> psi_status si \<noteq> Step_PENDING \<longrightarrow>
                   actStep now db session processId stepId body
                     = (Failure 400 ''Step is not pending'', db))
              \<and> (psi_processInstanceId si = processId \<and> psi_status si = Step_PENDING \<and>
                 stepType ws \<noteq> APPROVAL \<longrightarrow>
                   actStep now db session processId stepId body
                     = (Failure 400 ''This step type does not support approval actions'',
                        db))))"
proof -
  have loaded: "ls_stepInstance L = si \<and> ls_workflowStep L = ws"
    if "findStepInstance db stepId = Returned (Some L)"
      and "processStepInstance_findUnique db stepId = Some si"
      and "workflowStep_findUnique db (psi_workflowStepId si) = Some ws" for L si ws
    using that by (auto elim!: findStepInstance_Some)
  have missing: "findStepInstance db stepId = Returned None"
    if "processStepInstance_findUnique db stepId = None"
    using that by (simp add: findStepInstance_def)
  have found: "\<exists>L. findStepInstance db stepId = Returned (Some L)"
    if "findStepInstance db stepId \<noteq> Thrown"
      and "processStepInstance_findUnique db stepId = Some si" for si
    using that
    by (auto simp: findStepInstance_def split: option.splits outcome.splits)
  have A: "actStep now db session processId stepId body = (Failure 403 ''Forbidden'', db)"
    if "\<not> (su_role user = ADMIN \<or> su_role user = APPROVER)"
    using that assms by (simp add: actStep_def)
  have B: "actStep now db session processId stepId body
             = (Failure 404 ''Step not found'', db)"
    if "su_role user = ADMIN \<or> su_role user = APPROVER" "body = Some b"
      "actionSchema b = Some (action, comments)"
      "processStepInstance_findUnique db stepId = None"
    using that assms missing by (simp add: actStep_def)
  have C: "(psi_processInstanceId si \<noteq> processId \<longrightarrow>
                   actStep now db session processId stepId body
                     = (Failure 400 ''Step does not belong to this process'', db))
              \<and> (psi_processInstanceId si = processId \<and> psi_status si \<noteq> Step_PENDING \<longrightarrow>
                   actStep now db session processId stepId body
                     = (Failure 400 ''Step is not pending'', db))
              \<and> (psi_processInstanceId si = processId \<and> psi_status si = Step_PENDING \<and>
                 stepType ws \<noteq> APPROVAL \<longrightarrow>
                   actStep now db session processId stepId body
                     = (Failure 400 ''This step type does not support approval actions'',
                        db))"
    if e: "su_role user = ADMIN \<or> su_role user = APPROVER" "body = Some b"
      "actionSchema b = Some (action, comments)"
      and si: "processStepInstance_findUnique db stepId = Some si"
      and ws: "workflowStep_findUnique db (psi_workflowStepId si) = Some ws"
      and nt: "findStepInstance db stepId \<noteq> Thrown" for si ws
  proof -
    from found [OF nt si] obtain L where L: "findStepInstance db stepId = Returned (Some L)"
      by blast
    from loaded [OF L si ws] have sel: "ls_stepInstance L = si" "ls_workflowStep L = ws"
      by simp_all
    show ?thesis
      using e assms L sel by (simp add: actStep_def)
  qed
  from A B C show ?thesis
    by blast
qed

theorem actStep_precondition_order_witness:
  "actStep 9 running (Some requester) ''p1'' ''s2'' (Some (actionBody ''approve''))
     = (Failure 403 ''Forbidden'', running)
   \<and> actStep 9 running (Some approver) ''p1'' ''s9'' (Some (actionBody ''approve''))
     = (Failure 404 ''Step not found'', running)
   \<and> actStep 9 running (Some approver) ''p2'' ''s2'' (Some (actionBody ''approve''))
     = (Failure 400 ''Step does not belong to this process'', running)
   \<and> actStep 9 running (Some approver) ''p1'' ''s1'' (Some (actionBody ''approve''))
     = (Failure 400 ''Step is not pending'', running)
   \<and> actStep 9 running (Some approver) ''p1'' ''s3'' (Some (actionBody ''approve''))
     = (Failure 400 ''This step type does not support approval actions'', running)"
proof -
  have r: "\<not> (su_role requester = ADMIN \<or> su_role requester = APPROVER)"
    "su_role approver = ADMIN \<or> su_role approver = APPROVER"
    by (simp_all add: requester_def approver_def)
  have a: "actionSchema (actionBody ''approve'') = Some (approve, None)"
    by (simp add: actionSchema_def actionBody_def actionOfString_def)
  have s9: "processStepInstance_findUnique running ''s9'' = None"
    by (simp add: processStepInstance_findUnique_def running_def)
  have s: "processStepInstance_findUnique running ''s1''
      = Some \<lparr>psi_id = ''s1'', psi_processInstanceId = ''p1'', psi_workflowStepId = ''w1'',
          psi_status = Step_COMPLETED, psi_actedById = Some ''u3'', psi_actedAt = Some 5,
          psi_comments = None\<rparr>"
    "processStepInstance_findUnique running ''s2''
      = Some \<lparr>psi_id = ''s2'', psi_processInstanceId = ''p1'', psi_workflowStepId = ''w2'',
          psi_status = Step_PENDING, psi_actedById = None, psi_actedAt = None,
          psi_comments = None\<rparr>"
    "processStepInstance_findUnique running ''s3''
      = Some \<lparr>psi_id = ''s3'', psi_processInstanceId = ''p1'', psi_workflowStepId = ''w3'',
          psi_status = Step_PENDING, psi_actedById = None, psi_actedAt = None,
          psi_comments = None\<rparr>"
    by (simp_all add: processStepInstance_findUnique_def running_def)
  have w: "workflowStep_findUnique running ''w1''
      = Some \<lparr>ws_id = ''w1'', ws_workflowTemplateId = ''t1'', stepOrder = 1,
                stepType = FORM, ws_name = ''Submit''\<rparr>"
    "workflowStep_findUnique running ''w2''
      = Some \<lparr>ws_id = ''w2'', ws_workflowTemplateId = ''t1'', stepOrder = 2,
                stepType = APPROVAL, ws_name = ''Manager''\<rparr>"
    "workflowStep_findUnique running ''w3''
      = Some \<lparr>ws_id = ''w3'', ws_workflowTemplateId = ''t1'', stepOrder = 3,
                stepType = NOTIFICATION, ws_name = ''Tell''\<rparr>"
    by (simp_all add: workflowStep_findUnique_def running_def demo_def)
  have t: "findStepInstance running ''s1'' \<noteq> Thrown"
    "findStepInstance running ''s2'' \<noteq> Thrown"
    "findStepInstance running ''s3'' \<noteq> Thrown"
    by (simp_all add: actStep_eval)
  show ?thesis
    using actStep_precondition_order [OF refl, of requester 9 running "''p1''" "''s2''"]
          actStep_precondition_order [OF refl, of approver 9 running "''p1''" "''s9''"
            "Some (actionBody ''approve'')" "actionBody ''approve''" approve None]
          actStep_precondition_order [OF refl, of approver 9 running "''p2''" "''s2''"
            "Some (actionBody ''approve'')" "actionBody ''approve''" approve None]
          actStep_precondition_order [OF refl, of approver 9 running "''p1''" "''s1''"
            "Some (actionBody ''approve'')" "actionBody ''approve''" approve None]
          actStep_precondition_order [OF refl, of approver 9 running "''p1''" "''s3''"
            "Some (actionBody ''approve'')" "actionBody ''approve''" approve None]
          r a s9 s w t
    by simp
qed

section \<open>Terminal process statuses\<close>

text \<open>
  Claim C5. COMPLETED and REJECTED are terminal: every step action against a step
  instance of a process in one of these statuses fails. The repository says so itself:
  the reject branch is commented \<^verbatim>\<open>Reject the entire process\<close>, its guide has reject
  terminate the process, and its pages offer the actions only while the process is
  IN_PROGRESS. The handler does not hold to it, for it never reads the status of the
  process. In \<open>declined\<close> the process \<open>i\<close>, started on the two approvals of \<open>t2\<close>,
  is REJECTED after the rejection of its first approval step; its second step instance
  \<open>iii\<close> is still a pending approval, and approving it is answered 200 and turns the
  rejected process COMPLETED.
\<close>

theorem rejected_process_still_accepts_approve:
  "map_option pi_status (processInstance_findUnique declined ''i'') = Some REJECTED
   \<and> map_option psi_processInstanceId (processStepInstance_findUnique declined ''iii'')
       = Some ''i''
   \<and> fst (actStep 7 declined (Some approver) ''i'' ''iii'' (Some (actionBody ''approve'')))
       = Success 200
           (Some \<lparr>pi_id = ''i'', pi_workflowTemplateId = ''t2'', pi_createdById = ''u3'',
                   pi_formData = JObj [], pi_status = COMPLETED\<rparr>)"
proof -
  have st: "processInstances started =
              [\<lparr>pi_id = ''i'', pi_workflowTemplateId = ''t2'', pi_createdById = ''u3'',
                pi_formData = JObj [], pi_status = IN_PROGRESS\<rparr>]"
    "processStepInstances started =
       [\<lparr>psi_id = ''ii'', psi_processInstanceId = ''i'', psi_workflowStepId = ''w4'',
          psi_status = Step_PENDING, psi_actedById = None, psi_actedAt = None,
          psi_comments = None\<rparr>,
        \<lparr>psi_id = ''iii'', psi_processInstanceId = ''i'', psi_workflowStepId = ''w5'',
          psi_status = Step_PENDING, psi_actedById = None, psi_actedAt = None,
          psi_comments = None\<rparr>]"
    "workflowSteps started = workflowSteps demo"
    "workflowTemplates started = workflowTemplates demo"
    "users started = users demo"
    by (simp_all add: started_def createProcess_eval enumerate_eq_zip)
  have de: "processInstances declined =
              [\<lparr>pi_id = ''i'', pi_workflowTemplateId = ''t2'', pi_createdById = ''u3'',
                pi_formData = JObj [], pi_status = REJECTED\<rparr>]"
    "processStepInstances declined =
       [\<lparr>psi_id = ''ii'', psi_processInstanceId = ''i'', psi_workflowStepId = ''w4'',
          psi_status = Step_REJECTED, psi_actedById = Some ''u2'', psi_actedAt = Some 6,
          psi_comments = None\<rparr>,
        \<lparr>psi_id = ''iii'', psi_processInstanceId = ''i'', psi_workflowStepId = ''w5'',
          psi_status = Step_PENDING, psi_actedById = None, psi_actedAt = None,
          psi_comments = None\<rparr>]"
    "workflowSteps declined = workflowSteps demo"
    "workflowTemplates declined = workflowTemplates demo"
    "users declined = users demo"
    by (simp_all add: declined_def actStep_eval st)
  show ?thesis
    by (simp add: actStep_eval de)
qed

section \<open>What process creation writes\<close>

text \<open>
  Claim C4 ties the auto-completed step instance to the step order 1. The handler ties
  it to the position in the ordered steps: the first one. The template \<open>t3\<close> is active
  and its only step is a FORM step of step order 2; a process created on it gets that
  step instance COMPLETED with the creator as actor, where the claim has every step
  instance other than one of step order 1 created PENDING without actor.
\<close>

theorem first_step_need_not_have_order_one:
  "map stepOrder (stepsOfTemplate demo ''t3'') = [2]
   \<and> fst (createProcess 5 ids demo (Some requester) (Some (startBody ''t3'')))
       = Success 201
           (Some \<lparr>pi_id = ''i'', pi_workflowTemplateId = ''t3'', pi_createdById = ''u3'',
                   pi_formData = JObj [], pi_status = IN_PROGRESS\<rparr>)
   \<and> processStepInstances
         (snd (createProcess 5 ids demo (Some requester) (Some (startBody ''t3''))))
       = [\<lparr>psi_id = ''ii'', psi_processInstanceId = ''i'', psi_workflowStepId = ''w6'',
           psi_status = Step_COMPLETED, psi_actedById = Some ''u3'', psi_actedAt = Some 5,
           psi_comments = None\<rparr>]"
  by (simp add: createProcess_eval enumerate_eq_zip)

lemma newStepInstances_nth:
  assumes "i < length steps"
  shows "newStepInstances now newId userId steps ! i
           = newStepInstance now (newId (Suc i)) (newId 0) userId i (steps ! i)"
  using assms by (simp add: newStepInstances_def nth_enumerate_eq)

text \<open>
  Claim C4, amended. A successful creation on the template \<open>templateId\<close>, whose steps
  in ascending step order are \<open>steps\<close>, answers 201; the template is ACTIVE and
  \<open>steps\<close> is not empty. It appends one process, with status IN_PROGRESS, and one step
  instance per step, in the order of \<open>steps\<close>. The step instance of the first step in
  that order, if the step is a FORM step, is created COMPLETED with the creator as actor
  and acted-at = now; every other step instance is created PENDING with no actor and no
  acted-at. When the step orders are 1, 2, ... in that order, as the data model has
  them, the first step is the one of step order 1.
\<close>

theorem createProcess_step_instances:
  assumes ok: "createProcess now newId db session body = (Success code v, db')"
    and s: "session = Some user" and b: "body = Some b"
    and c: "createProcessSchema b = Some (templateId, formData)"
    and steps: "steps = stepsOfTemplate db templateId"
    and new: "new = drop (length (processStepInstances db)) (processStepInstances db')"
  shows "code = 201
       \<and> (\<exists>t. workflowTemplate_findUnique db templateId = Some t \<and> wt_status t = ACTIVE)
       \<and> steps \<noteq> [] \<and> sorted (map stepOrder steps)
       \<and> set steps = {w \<in> set (workflowSteps db). ws_workflowTemplateId w = templateId}
       \<and> processInstances db' = processInstances db @
            [\<lparr>pi_id = newId 0, pi_workflowTemplateId = templateId,
              pi_createdById = su_id user, pi_formData = formData,
              pi_status = IN_PROGRESS\<rparr>]
       \<and> processStepInstances db' = processStepInstances db @ new
       \<and> length new = length steps
       \<and> (\<forall>i < length steps.
             psi_processInstanceId (new ! i) = newId 0
           \<and> psi_workflowStepId (new ! i) = ws_id (steps ! i)
           \<and> (i = 0 \<and> stepType (steps ! i) = FORM \<longrightarrow>
                 psi_status (new ! i) = Step_COMPLETED
               \<and> psi_actedById (new ! i) = Some (su_id user)
               \<and> psi_actedAt (new ! i) = Some now)
           \<and> (\<not> (i = 0 \<and> stepType (steps ! i) = FORM) \<longrightarrow>
                 psi_status (new ! i) = Step_PENDING
               \<and> psi_actedById (new ! i) = None
               \<and> psi_actedAt (new ! i) = None))
       \<and> ((\<forall>i < length steps. stepOrder (steps ! i) = int i + 1) \<longrightarrow>
            (\<forall>i < length steps.
               (stepOrder (steps ! i) = 1 \<and> stepType (steps ! i) = FORM \<longrightarrow>
                  psi_status (new ! i) = Step_COMPLETED
                \<and> psi_actedById (new ! i) = Some (su_id user)
                \<and> psi_actedAt (new ! i) = Some now)
             \<and> (\<not> (stepOrder (steps ! i) = 1 \<and> stepType (steps ! i) = FORM) \<longrightarrow>
                  psi_status (new ! i) = Step_PENDING
                \<and> psi_actedById (new ! i) = None
                \<and> psi_actedAt (new ! i) = None)))"
proof -
  from ok s b c obtain t where
    t: "workflowTemplate_findUnique db templateId = Some t" "wt_status t = ACTIVE"
    and ne: "stepsOfTemplate db templateId \<noteq> []"
    and code: "code = 201"
    and db': "db' = afterCreate newId (su_id user) t (stepsOfTemplate db templateId) formData
                     (createProcessTransaction now newId (su_id user) templateId formData
                        (stepsOfTemplate db templateId) db)"
    by (auto simp: createProcess_def Let_def split: option.splits if_splits)
  have keep: "processInstances (afterCreate i u w ss f d) = processInstances d"
    "processStepInstances (afterCreate i u w ss f d) = processStepInstances d" for i u w ss f d
    by (simp_all add: afterCreate_def Let_def notifyApprovers_eq createNotification_def
          createAuditLog_def)
  have tbl: "processStepInstances db' =
               processStepInstances db @ newStepInstances now newId (su_id user) steps"
    and procs: "processInstances db' = processInstances db @
            [\<lparr>pi_id = newId 0, pi_workflowTemplateId = templateId,
              pi_createdById = su_id user, pi_formData = formData,
              pi_status = IN_PROGRESS\<rparr>]"
    by (simp_all add: db' keep createProcessTransaction_def steps)
  have new': "new = newStepInstances now newId (su_id user) steps"
    by (simp add: new tbl)
  have len: "length new = length steps"
    by (simp add: new' newStepInstances_def)
  have srt: "sorted (map stepOrder steps)"
    and mem: "set steps = {w \<in> set (workflowSteps db). ws_workflowTemplateId w = templateId}"
    by (auto simp: steps stepsOfTemplate_def)
  have row: "new ! i = newStepInstance now (newId (Suc i)) (newId 0) (su_id user) i (steps ! i)"
    if "i < length steps" for i
    using that by (simp add: new' newStepInstances_nth)
  have pos: "psi_processInstanceId (new ! i) = newId 0
           \<and> psi_workflowStepId (new ! i) = ws_id (steps ! i)
           \<and> (i = 0 \<and> stepType (steps ! i) = FORM \<longrightarrow>
                 psi_status (new ! i) = Step_COMPLETED
               \<and> psi_actedById (new ! i) = Some (su_id user)
               \<and> psi_actedAt (new ! i) = Some now)
           \<and> (\<not> (i = 0 \<and> stepType (steps ! i) = FORM) \<longrightarrow>
                 psi_status (new ! i) = Step_PENDING
               \<and> psi_actedById (new ! i) = None
               \<and> psi_actedAt (new ! i) = None)"
    if "i < length steps" for i
    using row [OF that] by (auto simp: newStepInstance_def)
  have one: "(stepOrder (steps ! i) = 1 \<and> stepType (steps ! i) = FORM \<longrightarrow>
                  psi_status (new ! i) = Step_COMPLETED
                \<and> psi_actedById (new ! i) = Some (su_id user)
                \<and> psi_actedAt (new ! i) = Some now)
             \<and> (\<not> (stepOrder (steps ! i) = 1 \<and> stepType (steps ! i) = FORM) \<longrightarrow>
                  psi_status (new ! i) = Step_PENDING
                \<and> psi_actedById (new ! i) = None
                \<and> psi_actedAt (new ! i) = None)"
    if inv: "\<forall>i < length steps. stepOrder (steps ! i) = int i + 1"
      and i: "i < length steps" for i
  proof -
    from inv i have "stepOrder (steps ! i) = 1 \<longleftrightarrow> i = 0"
      by auto
    with pos [OF i] show ?thesis
      by (cases "i = 0") auto
  qed
  have nes: "steps \<noteq> []"
    using ne by (simp add: steps)
  have app: "processStepInstances db' = processStepInstances db @ new"
    using tbl by (simp add: new')
  have ex: "\<exists>t. workflowTemplate_findUnique db templateId = Some t \<and> wt_status t = ACTIVE"
    using t by blast
  show ?thesis
    using code ex nes srt mem procs app len pos one
    by (intro conjI allI impI) blast+
qed

theorem createProcess_step_instances_witness:
  "map psi_status
     (processStepInstances
        (snd (createProcess 5 ids demo (Some requester) (Some (startBody ''t1'')))))
     = [Step_COMPLETED, Step_PENDING, Step_PENDING]
   \<and> map psi_actedById
     (processStepInstances
        (snd (createProcess 5 ids demo (Some requester) (Some (startBody ''t1'')))))
     = [Some ''u3'', None, None]
   \<and> map psi_workflowStepId
     (processStepInstances
        (snd (createProcess 5 ids demo (Some requester) (Some (startBody ''t1'')))))
     = [''w1'', ''w2'', ''w3'']"
proof -
  let ?r = "createProcess 5 ids demo (Some requester) (Some (startBody ''t1''))"
  let ?tbl = "processStepInstances (snd ?r)"
  have "fst ?r = Success 201
          (Some \<lparr>pi_id = ''i'', pi_workflowTemplateId = ''t1'', pi_createdById = ''u3'',
                  pi_formData = JObj [], pi_status = IN_PROGRESS\<rparr>)"
    by (simp add: createProcess_eval enumerate_eq_zip)
  then have ok: "?r = (Success 201
          (Some \<lparr>pi_id = ''i'', pi_workflowTemplateId = ''t1'', pi_createdById = ''u3'',
                  pi_formData = JObj [], pi_status = IN_PROGRESS\<rparr>), snd ?r)"
    by (simp add: prod_eq_iff)
  have c: "createProcessSchema (startBody ''t1'') = Some (''t1'', JObj [])"
    by (simp add: createProcessSchema_def startBody_def)
  have st: "stepsOfTemplate demo ''t1'' =
       [\<lparr>ws_id = ''w1'', ws_workflowTemplateId = ''t1'', stepOrder = 1,
                stepType = FORM, ws_name = ''Submit''\<rparr>,
        \<lparr>ws_id = ''w2'', ws_workflowTemplateId = ''t1'', stepOrder = 2,
                stepType = APPROVAL, ws_name = ''Manager''\<rparr>,
        \<lparr>ws_id = ''w3'', ws_workflowTemplateId = ''t1'', stepOrder = 3,
                stepType = NOTIFICATION, ws_name = ''Tell''\<rparr>]"
    by (simp add: stepsOfTemplate_def demo_def)
  have e: "processStepInstances demo = []"
    by (simp add: demo_def)
  have u: "su_id requester = ''u3''"
    by (simp add: requester_def)
  note T = createProcess_step_instances [OF ok refl refl c refl refl]
  note len = T [THEN conjunct2, THEN conjunct2, THEN conjunct2, THEN conjunct2,
                THEN conjunct2, THEN conjunct2, THEN conjunct2, THEN conjunct1]
  note pos = T [THEN conjunct2, THEN conjunct2, THEN conjunct2, THEN conjunct2,
                THEN conjunct2, THEN conjunct2, THEN conjunct2, THEN conjunct2,
                THEN conjunct1, rule_format]
  have l3: "length ?tbl = 3"
    using len by (simp add: st e)
  have r0: "psi_workflowStepId (?tbl ! 0) = ''w1''" "psi_status (?tbl ! 0) = Step_COMPLETED"
    "psi_actedById (?tbl ! 0) = Some ''u3''"
    using pos [of 0] by (simp_all add: st e u)
  have r1: "psi_workflowStepId (?tbl ! 1) = ''w2''" "psi_status (?tbl ! 1) = Step_PENDING"
    "psi_actedById (?tbl ! 1) = None"
    using pos [of 1] by (simp_all add: st e u)
  have r2: "psi_workflowStepId (?tbl ! 2) = ''w3''" "psi_status (?tbl ! 2) = Step_PENDING"
    "psi_actedById (?tbl ! 2) = None"
    using pos [of 2] by (simp_all add: st e u)
  have three: "xs = [xs ! 0, xs ! 1, xs ! 2]" if "length xs = 3" for xs :: "'a list"
  proof (rule nth_equalityI)
    show "length xs = length [xs ! 0, xs ! 1, xs ! 2]"
      using that by simp
    fix i assume "i < length xs"
    with that have "i = 0 \<or> i = 1 \<or> i = 2"
      by arith
    then show "xs ! i = [xs ! 0, xs ! 1, xs ! 2] ! i"
      by auto
  qed
  have shape: "map f ?tbl = [f (?tbl ! 0), f (?tbl ! 1), f (?tbl ! 2)]" for f
    using three [of "map f ?tbl"] l3 by simp
  show ?thesis
    unfolding shape r0 r1 r2 by simp
qed

end
